theory Spec2Isabelle
  imports Complex_Main "HOL-Library.AList"
begin

section \<open>Python values as they reach the command processor\<close>

text \<open>
  A command is whatever \<^verbatim>\<open>json.load\<close> / \<^verbatim>\<open>json.loads\<close> returned: null, a bool, an
  unbounded int, a float (also \<^verbatim>\<open>NaN\<close> and the infinities, which Python's decoder
  accepts), a string, a list, or a dict. A dict is kept as the list of its items in
  insertion order, which is the order \<^verbatim>\<open>json.dump\<close> writes them in; \<open>map_of\<close> is
  \<^verbatim>\<open>dict.get\<close> and \<open>AList.update\<close> is item assignment (the key keeps its place).
\<close>

datatype pyfloat = Finite rat | PosInf | NegInf | NaN

datatype json =
    JNull
  | JBool bool
  | JInt int
  | JFloat pyfloat
  | JStr string
  | JArr "json list"
  | JObj "(string \<times> json) list"

text \<open>\<^verbatim>\<open>bool(v)\<close>: Python truthiness.\<close>

fun py_bool :: "json \<Rightarrow> bool" where
  "py_bool JNull = False"
| "py_bool (JBool b) = b"
| "py_bool (JInt i) = (i \<noteq> 0)"
| "py_bool (JFloat (Finite r)) = (r \<noteq> 0)"
| "py_bool (JFloat _) = True"
| "py_bool (JStr s) = (s \<noteq> [])"
| "py_bool (JArr xs) = (xs \<noteq> [])"
| "py_bool (JObj kv) = (kv \<noteq> [])"

text \<open>
  \<^verbatim>\<open>int(v)\<close>, with \<open>None\<close> for every exception it raises (\<^verbatim>\<open>TypeError\<close> on null,
  lists and dicts, \<^verbatim>\<open>ValueError\<close> on NaN and on a string that is not a decimal literal,
  \<^verbatim>\<open>OverflowError\<close> on an infinity). A float is truncated towards zero.

  What \<^verbatim>\<open>int\<close> makes of a string is decided by the runtime, whose tables of whitespace
  and decimal digits are those of its Unicode database. The conversion is therefore an
  argument of \<open>py_int\<close>, handed to the command processor with the outcomes of its other
  calls, and everything proved about the processor holds whatever that function is.

  \<open>int_of_str\<close> is the conversion of the runtime the host embeds (Python 3.3) on strings
  whose characters are code points below 256; the examples use it. Leading and trailing
  whitespace is dropped: the six ASCII characters of \<^verbatim>\<open>Py_ISSPACE\<close> and, of the characters
  above 127 that the runtime first rewrites to a space, the two below 256 (NEL and
  NBSP). The separators 0x1C to 0x1F are not dropped. What remains must be an optional
  sign followed by one or more ASCII digits: below 256 there is no other decimal digit,
  and digit-separating underscores are not known to this runtime.
\<close>

definition is_space :: "char \<Rightarrow> bool" where
  "is_space c = (c \<in> set [CHR '' '', CHR 0x09, CHR 0x0A, CHR 0x0B, CHR 0x0C, CHR 0x0D,
                           CHR 0x85, CHR 0xA0])"

definition strip :: "string \<Rightarrow> string" where
  "strip s = rev (dropWhile is_space (rev (dropWhile is_space s)))"

definition is_digit :: "char \<Rightarrow> bool" where
  "is_digit c = (48 \<le> (of_char c :: nat) \<and> (of_char c :: nat) \<le> 57)"

definition digits_value :: "string \<Rightarrow> int" where
  "digits_value ds = foldl (\<lambda>a c. 10 * a + (int (of_char c) - 48)) 0 ds"

definition parse_digits :: "string \<Rightarrow> int option" where
  "parse_digits ds = (if ds \<noteq> [] \<and> list_all is_digit ds then Some (digits_value ds) else None)"

definition int_of_str :: "string \<Rightarrow> int option" where
  "int_of_str s =
     (case strip s of
        [] \<Rightarrow> None
      | c # cs \<Rightarrow>
          if c = CHR ''-'' then map_option uminus (parse_digits cs)
          else if c = CHR ''+'' then parse_digits cs
          else parse_digits (c # cs))"

definition trunc :: "rat \<Rightarrow> int" where
  "trunc r = (if 0 \<le> r then \<lfloor>r\<rfloor> else \<lceil>r\<rceil>)"

fun py_int :: "(string \<Rightarrow> int option) \<Rightarrow> json \<Rightarrow> int option" where
  "py_int of_str JNull = None"
| "py_int of_str (JBool b) = Some (if b then 1 else 0)"
| "py_int of_str (JInt i) = Some i"
| "py_int of_str (JFloat (Finite r)) = Some (trunc r)"
| "py_int of_str (JFloat _) = None"
| "py_int of_str (JStr s) = of_str s"
| "py_int of_str (JArr _) = None"
| "py_int of_str (JObj _) = None"

section \<open>Module state and the world outside it\<close>

text \<open>
  The module-level globals of \<^verbatim>\<open>AC_RL.py\<close>. A host is whatever value the command
  carried (the code stores it unchecked); a port is an int once \<^verbatim>\<open>int(port)\<close> has
  succeeded; a socket global is \<open>None\<close> or the handle of a socket object.
\<close>

type_synonym handle = nat
type_synonym addr = "json \<times> int"

record globals =
  TELEMETRY_UDP_HOST :: json
  TELEMETRY_UDP_PORT :: int
  telemetry_sock :: "handle option"
  telemetry_addr :: addr
  INPUT_UDP_HOST :: json
  INPUT_UDP_PORT :: int
  input_sock :: "handle option"
  input_addr :: addr

definition module_globals :: globals where
  "module_globals =
     \<lparr> TELEMETRY_UDP_HOST = JStr ''127.0.0.1'', TELEMETRY_UDP_PORT = 9876,
       telemetry_sock = None, telemetry_addr = (JStr ''127.0.0.1'', 9876),
       INPUT_UDP_HOST = JStr ''127.0.0.1'', INPUT_UDP_PORT = 9877,
       input_sock = None, input_addr = (JStr ''127.0.0.1'', 9877) \<rparr>"

text \<open>
  What the program acts on: the operating system's open sockets, the file system, the
  debug log (one entry per call of \<^verbatim>\<open>file_log\<close>, the format string standing for the
  formatted message), the commands passed to the host's command function, the datagrams
  handed to \<^verbatim>\<open>sendto\<close>, and the lines given to the host's \<^verbatim>\<open>ac.log\<close>.
  A file holds a JSON document or text that does not parse (a torn or foreign file); a
  datagram is recorded as the document it serialises.
\<close>

record sock =
  bound_to :: "addr option"
  blocking :: bool

datatype fcontent = Doc json | NotJson

record world =
  w_socks :: "(handle \<times> sock) list"
  w_next :: handle
  w_files :: "(string \<times> fcontent) list"
  w_log :: "string list"
  w_host_cmds :: "int list"
  w_sent :: "(handle \<times> json \<times> addr) list"
  w_ac_log :: "string list"

definition empty_world :: world where
  "empty_world = \<lparr> w_socks = [], w_next = 0, w_files = [], w_log = [],
                    w_host_cmds = [], w_sent = [], w_ac_log = [] \<rparr>"

type_synonym state = "globals \<times> world"

text \<open>\<^verbatim>\<open>file_log(msg)\<close> never raises: both of its attempts are guarded.\<close>

definition file_log :: "string \<Rightarrow> world \<Rightarrow> world" where
  "file_log msg w = w\<lparr>w_log := w_log w @ [msg]\<rparr>"

subsection \<open>Socket helpers\<close>

text \<open>
  \<^verbatim>\<open>s.bind((host, port))\<close> and \<^verbatim>\<open>s.sendto(data, (host, port))\<close> raise, whatever the
  network says, when the host is not a string or the port is outside \<open>0..65535\<close>.
\<close>

fun addr_ok :: "json \<Rightarrow> int \<Rightarrow> bool" where
  "addr_ok (JStr h) p = (0 \<le> p \<and> p \<le> 65535)"
| "addr_ok _ p = False"

text \<open>
  \<^verbatim>\<open>_create_udp_socket(bind, host, port, blocking)\<close>. \<open>os_ok\<close> is the operating system's
  answer to this call (socket creation and, when binding, the bind). On any failure the
  function logs and returns \<open>None\<close>; the half-made socket object has no reference left
  and is released with the call frame, so no socket stays open.
\<close>

definition create_udp_socket ::
  "bool \<Rightarrow> bool \<Rightarrow> json \<Rightarrow> int \<Rightarrow> bool \<Rightarrow> world \<Rightarrow> handle option \<times> world" where
  "create_udp_socket os_ok bind host port blk w =
     (if os_ok \<and> (if bind then addr_ok host port else True)
      then (Some (w_next w),
            w\<lparr>w_socks := w_socks w @
                 [(w_next w, \<lparr>bound_to = (if bind then Some (host, port) else None),
                              blocking = blk\<rparr>)],
              w_next := Suc (w_next w)\<rparr>)
      else (None, file_log ''_create_udp_socket error host=%s port=%s bind=%s: %s'' w))"

text \<open>
  \<^verbatim>\<open>sock.close()\<close> releases the descriptor whether or not it raises, and every caller
  swallows the exception.
\<close>

definition sock_close :: "handle \<Rightarrow> world \<Rightarrow> world" where
  "sock_close h w = w\<lparr>w_socks := filter (\<lambda>hs. fst hs \<noteq> h) (w_socks w)\<rparr>"

definition close_socket :: "handle option \<Rightarrow> world \<Rightarrow> world" where
  "close_socket s w =
     (case s of None \<Rightarrow> w | Some h \<Rightarrow> file_log ''Socket %s closed'' (sock_close h w))"

subsection \<open>Host commands and atomic file writes\<close>

text \<open>
  The outcomes of the fallible calls made while one command is processed:
  whether each socket creation succeeds, the host's command function (\<open>None\<close> when
  neither \<^verbatim>\<open>sendCMD\<close>, \<^verbatim>\<open>sendcmd\<close> nor \<^verbatim>\<open>ac.sendCommand\<close> is callable; otherwise the
  codes on which it raises), how writing the temporary file and moving it go, and the
  runtime's conversion of a string by \<^verbatim>\<open>int\<close>.
\<close>

datatype wres = WriteOk | OpenFails | WriteFails

record hio =
  io_tele_socket :: bool
  io_rebind :: bool
  io_enable :: bool
  io_sendcmd :: "(int \<Rightarrow> bool) option"
  io_write :: wres
  io_replace :: bool
  io_rename :: bool
  io_int_str :: "string \<Rightarrow> int option"

definition call_sendcmd :: "(int \<Rightarrow> bool) option \<Rightarrow> int \<Rightarrow> world \<Rightarrow> world" where
  "call_sendcmd fn code w =
     (case fn of
        None \<Rightarrow> w
      | Some raises \<Rightarrow>
          let w1 = w\<lparr>w_host_cmds := w_host_cmds w @ [code]\<rparr>
          in if raises code then file_log ''call_sendcmd failed: %s'' w1 else w1)"

text \<open>
  The write pattern shared by the command file and the telemetry file:
  \<^verbatim>\<open>with open(tmp, "w") as f: json.dump(doc, f)\<close>, then \<^verbatim>\<open>os.replace(tmp, path)\<close>, then
  \<^verbatim>\<open>os.rename(tmp, path)\<close> if the replace raised. The result says whether the whole
  sequence went through; if not, the exception reaches the caller's handler.
\<close>

definition atomic_write ::
  "wres \<Rightarrow> bool \<Rightarrow> bool \<Rightarrow> string \<Rightarrow> string \<Rightarrow> json \<Rightarrow> world \<Rightarrow> bool \<times> world" where
  "atomic_write wr rep ren tmp path doc w =
     (case wr of
        OpenFails \<Rightarrow> (False, w)
      | WriteFails \<Rightarrow> (False, w\<lparr>w_files := AList.update tmp NotJson (w_files w)\<rparr>)
      | WriteOk \<Rightarrow>
          let w1 = w\<lparr>w_files := AList.update tmp (Doc doc) (w_files w)\<rparr>
          in if rep \<or> ren
             then (True, w1\<lparr>w_files := AList.delete tmp (AList.update path (Doc doc) (w_files w1))\<rparr>)
             else (False, w1))"

section \<open>The command processor\<close>

text \<open>
  \<^verbatim>\<open>handle_input_data(cmd, path)\<close> is five consecutive \<^verbatim>\<open>if\<close> blocks, one per group of
  keys; each is a function here, in the order of the source.
\<close>

definition get_or :: "(string \<times> json) list \<Rightarrow> string \<Rightarrow> json \<Rightarrow> json" where
  "get_or kv k d = (case map_of kv k of None \<Rightarrow> d | Some v \<Rightarrow> v)"

definition has_key :: "(string \<times> json) list \<Rightarrow> string \<Rightarrow> bool" where
  "has_key kv k = (map_of kv k \<noteq> None)"

definition blk_telemetry_addr :: "hio \<Rightarrow> (string \<times> json) list \<Rightarrow> state \<Rightarrow> state" where
  "blk_telemetry_addr io kv s =
     (case s of (g, w) \<Rightarrow>
      if has_key kv ''telemetry_udp_host'' \<or> has_key kv ''telemetry_udp_port''
      then let host = get_or kv ''telemetry_udp_host'' (TELEMETRY_UDP_HOST g);
               port = get_or kv ''telemetry_udp_port'' (JInt (TELEMETRY_UDP_PORT g))
           in (case py_int (io_int_str io) port of
                 Some p \<Rightarrow>
                   (g\<lparr>TELEMETRY_UDP_HOST := host, TELEMETRY_UDP_PORT := p,
                      telemetry_addr := (host, p)\<rparr>,
                    file_log ''Telemetry UDP target updated to %s:%d via input'' w)
               | None \<Rightarrow> (g, file_log ''Invalid telemetry_udp_port in input: %s'' w))
      else (g, w))"

definition blk_use_udp_telemetry :: "hio \<Rightarrow> (string \<times> json) list \<Rightarrow> state \<Rightarrow> state" where
  "blk_use_udp_telemetry io kv s =
     (case s of (g, w) \<Rightarrow>
      if has_key kv ''use_udp_telemetry''
      then let use_udp = py_bool (get_or kv ''use_udp_telemetry'' JNull)
           in if \<not> use_udp \<and> telemetry_sock g \<noteq> None
              then (g\<lparr>telemetry_sock := None\<rparr>,
                    file_log ''Telemetry UDP disabled via input''
                      (close_socket (telemetry_sock g) w))
              else if use_udp \<and> telemetry_sock g = None
              then (case create_udp_socket (io_tele_socket io) False
                           (TELEMETRY_UDP_HOST g) (TELEMETRY_UDP_PORT g) True w of
                      (sk, w1) \<Rightarrow>
                        (g\<lparr>telemetry_sock := sk,
                           telemetry_addr := (TELEMETRY_UDP_HOST g, TELEMETRY_UDP_PORT g)\<rparr>,
                         file_log ''Telemetry UDP enabled via input to %s:%d'' w1))
              else (g, w)
      else (g, w))"

definition blk_input_addr :: "hio \<Rightarrow> (string \<times> json) list \<Rightarrow> state \<Rightarrow> state" where
  "blk_input_addr io kv s =
     (case s of (g, w) \<Rightarrow>
      if has_key kv ''input_udp_host'' \<or> has_key kv ''input_udp_port''
      then let host = get_or kv ''input_udp_host'' (INPUT_UDP_HOST g);
               port = get_or kv ''input_udp_port'' (JInt (INPUT_UDP_PORT g))
           in (case py_int (io_int_str io) port of
                 Some p \<Rightarrow>
                   let g1 = g\<lparr>INPUT_UDP_HOST := host, INPUT_UDP_PORT := p,
                              input_addr := (host, p)\<rparr>;
                       w1 = (case input_sock g of None \<Rightarrow> w | Some h \<Rightarrow> sock_close h w)
                   in (case create_udp_socket (io_rebind io) True host p False w1 of
                         (sk, w2) \<Rightarrow>
                           (g1\<lparr>input_sock := sk\<rparr>,
                            file_log ''Input UDP socket bound to %s:%d'' w2))
               | None \<Rightarrow> (g, file_log ''Invalid input_udp_port in input: %s'' w))
      else (g, w))"

definition blk_use_input_udp :: "hio \<Rightarrow> (string \<times> json) list \<Rightarrow> state \<Rightarrow> state" where
  "blk_use_input_udp io kv s =
     (case s of (g, w) \<Rightarrow>
      if has_key kv ''use_input_udp''
      then let use_in = py_bool (get_or kv ''use_input_udp'' JNull)
           in if \<not> use_in \<and> input_sock g \<noteq> None
              then (g\<lparr>input_sock := None\<rparr>,
                    file_log ''Input UDP disabled via input'' (close_socket (input_sock g) w))
              else if use_in \<and> input_sock g = None
              then (case create_udp_socket (io_enable io) True
                           (INPUT_UDP_HOST g) (INPUT_UDP_PORT g) False w of
                      (sk, w1) \<Rightarrow>
                        (g\<lparr>input_sock := sk\<rparr>,
                         file_log ''Input UDP enabled via input to %s:%d'' w1))
              else (g, w)
      else (g, w))"

text \<open>
  The reset block. \<^verbatim>\<open>cmd.get("reset") is True\<close> holds for the JSON value \<^verbatim>\<open>true\<close> only.
  \<^verbatim>\<open>if path:\<close> is false for \<^verbatim>\<open>None\<close> and for the empty string.
\<close>

definition blk_reset :: "hio \<Rightarrow> (string \<times> json) list \<Rightarrow> string option \<Rightarrow> state \<Rightarrow> state" where
  "blk_reset io kv path s =
     (case s of (g, w) \<Rightarrow>
      if map_of kv ''reset'' = Some (JBool True)
      then let w1 = call_sendcmd (io_sendcmd io) 69 (call_sendcmd (io_sendcmd io) 68 w)
           in (case path of
                 None \<Rightarrow> (g, w1)
               | Some p \<Rightarrow>
                   if p = [] then (g, w1)
                   else (case atomic_write (io_write io) (io_replace io) (io_rename io)
                                (p @ ''.tmp'') p
                                (JObj (AList.update ''reset'' (JBool False) kv)) w1 of
                           (ok, w2) \<Rightarrow>
                             (g, if ok then w2
                                 else file_log ''Error writing input file after reset: %s'' w2)))
      else (g, w))"

definition handle_input_data :: "hio \<Rightarrow> json \<Rightarrow> string option \<Rightarrow> state \<Rightarrow> state" where
  "handle_input_data io cmd path s =
     (case cmd of
        JObj kv \<Rightarrow>
          blk_reset io kv path
            (blk_use_input_udp io kv
              (blk_input_addr io kv
                (blk_use_udp_telemetry io kv
                  (blk_telemetry_addr io kv s))))
      | _ \<Rightarrow> s)"


section \<open>Start-up and the per-tick command sources\<close>

text \<open>
  The socket part of \<^verbatim>\<open>acMain\<close>: both sockets are created from the configured
  endpoints. The window and label set-up around it is not modelled.
\<close>

definition acMain :: "bool \<Rightarrow> bool \<Rightarrow> state \<Rightarrow> state" where
  "acMain tele_ok in_ok s =
     (case s of (g, w) \<Rightarrow>
      let w0 = file_log ''AC_RL telemetry configured for UDP %s:%d and file %s''
                 (file_log ''acMain starting'' w);
          c1 = create_udp_socket tele_ok False (TELEMETRY_UDP_HOST g) (TELEMETRY_UDP_PORT g) True w0;
          g1 = g\<lparr>telemetry_sock := fst c1,
                 telemetry_addr := (TELEMETRY_UDP_HOST g, TELEMETRY_UDP_PORT g)\<rparr>;
          w1 = (if fst c1 \<noteq> None
                then file_log ''Telemetry UDP socket created to %s:%d'' (snd c1) else snd c1);
          c2 = create_udp_socket in_ok True (INPUT_UDP_HOST g) (INPUT_UDP_PORT g) False w1;
          g2 = g1\<lparr>input_sock := fst c2, input_addr := (INPUT_UDP_HOST g, INPUT_UDP_PORT g)\<rparr>;
          w2 = (if fst c2 \<noteq> None
                then file_log ''Input UDP socket bound to %s:%d'' (snd c2) else snd c2)
      in (g2, w2))"

text \<open>A run of the command processor over a sequence of commands, each with its outcomes.\<close>

fun process_all :: "(hio \<times> json \<times> string option) list \<Rightarrow> state \<Rightarrow> state" where
  "process_all [] s = s"
| "process_all ((io, cmd, path) # cs) s = process_all cs (handle_input_data io cmd path s)"

text \<open>The sockets of the command-in endpoint are the bound ones: telemetry never binds.\<close>

definition live_command_in :: "world \<Rightarrow> handle list" where
  "live_command_in w = map fst (filter (\<lambda>hs. bound_to (snd hs) \<noteq> None) (w_socks w))"

text \<open>
  What one tick meets outside the program: the host's documents directory (\<open>None\<close>
  when \<^verbatim>\<open>ac.getDocumentsPath()\<close> raises), the application's own directory, whether the
  command file can be read, the outcomes for the command read from the file, the
  datagrams \<^verbatim>\<open>recvfrom\<close> hands out on the command socket (\<open>None\<close> for bytes that do
  not decode to JSON) each with the outcomes for its command, the clock, whether
  \<^verbatim>\<open>ac.setText\<close> works for label \<open>t\<close>, whether \<^verbatim>\<open>sendto\<close> gets the datagram out,
  how writing the telemetry file goes, and the messages on which \<^verbatim>\<open>ac.log\<close> raises.
\<close>

record tio =
  t_docs :: "string option"
  t_app_dir :: string
  t_read_ok :: bool
  t_file_io :: hio
  t_packets :: "(json option \<times> hio) list"
  t_now :: rat
  t_setText_ok :: "nat \<Rightarrow> bool"
  t_send_ok :: bool
  t_write :: wres
  t_replace :: bool
  t_rename :: bool
  t_ac_log_raises :: "string \<Rightarrow> bool"

text \<open>\<^verbatim>\<open>os.path.join(d, name)\<close> for a relative \<open>name\<close>.\<close>

definition path_join :: "string \<Rightarrow> string \<Rightarrow> string" where
  "path_join d name =
     (if d = [] then name
      else if last d = CHR ''/'' then d @ name
      else d @ ''/'' @ name)"

definition docs_dir :: "tio \<Rightarrow> string" where
  "docs_dir t = (case t_docs t of Some d \<Rightarrow> d | None \<Rightarrow> t_app_dir t)"

definition exists_file :: "world \<Rightarrow> string \<Rightarrow> bool" where
  "exists_file w p = (map_of (w_files w) p \<noteq> None)"

text \<open>Where \<^verbatim>\<open>check_input_file\<close> looks for \<^verbatim>\<open>AC_RL_input.json\<close>.\<close>

definition input_path :: "tio \<Rightarrow> world \<Rightarrow> string option" where
  "input_path t w =
     (if exists_file w (path_join (docs_dir t) ''AC_RL_input.json'')
      then Some (path_join (docs_dir t) ''AC_RL_input.json'')
      else if exists_file w (path_join (t_app_dir t) ''AC_RL_input.json'')
      then Some (path_join (t_app_dir t) ''AC_RL_input.json'')
      else None)"

text \<open>
  The drain loop on the command socket. \<open>h\<close> is the socket that was live when the
  loop began and the list is what \<^verbatim>\<open>recvfrom\<close> returns on it, in order. Every pass,
  the one after the last datagram too, reads the global \<^verbatim>\<open>input_sock\<close> afresh: when a
  command has nulled it the attribute access on \<^verbatim>\<open>None\<close> raises and the outer handler
  logs; when a command has rebound it the new socket has nothing queued yet, and on the
  old socket with nothing left \<^verbatim>\<open>recvfrom\<close> raises \<^verbatim>\<open>BlockingIOError\<close> as well, which
  breaks out.
\<close>

fun poll_input :: "handle \<Rightarrow> (json option \<times> hio) list \<Rightarrow> state \<Rightarrow> state" where
  "poll_input h [] s =
     (case input_sock (fst s) of
        None \<Rightarrow> (fst s, file_log ''Error reading from input UDP socket: %s'' (snd s))
      | Some h' \<Rightarrow> s)"
| "poll_input h ((pkt, io) # rest) s =
     (case input_sock (fst s) of
        None \<Rightarrow> (fst s, file_log ''Error reading from input UDP socket: %s'' (snd s))
      | Some h' \<Rightarrow>
          if h' \<noteq> h then s
          else (case pkt of
                  None \<Rightarrow>
                    poll_input h rest
                      (fst s, file_log ''Error parsing input UDP JSON from %s: %s'' (snd s))
                | Some cmd \<Rightarrow> poll_input h rest (handle_input_data io cmd None s)))"

definition read_input_file :: "tio \<Rightarrow> world \<Rightarrow> string option \<Rightarrow> json option \<times> world" where
  "read_input_file t w path =
     (case path of
        None \<Rightarrow> (None, w)
      | Some p \<Rightarrow>
          (case map_of (w_files w) p of
             Some (Doc d) \<Rightarrow>
               if t_read_ok t then (Some d, w)
               else (None, file_log ''Error reading input file: %s'' w)
           | _ \<Rightarrow> (None, file_log ''Error reading input file: %s'' w)))"

definition check_input_file :: "tio \<Rightarrow> state \<Rightarrow> state" where
  "check_input_file t s =
     (case s of (g, w) \<Rightarrow>
      let path = input_path t w;
          rd = read_input_file t w path;
          s1 = (case fst rd of
                  Some (JObj kv) \<Rightarrow> handle_input_data (t_file_io t) (JObj kv) path (g, snd rd)
                | _ \<Rightarrow> (g, snd rd))
      in (case input_sock (fst s1) of
            None \<Rightarrow> s1
          | Some h \<Rightarrow> poll_input h (t_packets t) s1))"

section \<open>The telemetry publisher\<close>

text \<open>
  The host's data modules. A module maps an attribute name to a function, if it has
  one; a function maps its arguments to the value it returns, \<open>None\<close> when it raises.
  The six modules are imported in one guarded block, so either all six are there or all
  six globals are \<^verbatim>\<open>None\<close>: the program holds a \<open>providers option\<close>.
\<close>

type_synonym pyfun = "json list \<Rightarrow> json option"
type_synonym pymodule = "string \<Rightarrow> pyfun option"

record providers =
  tyre_info :: pymodule
  session_info :: pymodule
  car_info :: pymodule
  input_info :: pymodule
  lap_info :: pymodule
  car_stats :: pymodule

text \<open>
  \<^verbatim>\<open>safe_call(mod, name, *args, default=None)\<close>: the value, and the log entries made on the
  way (one when the call raised).
\<close>

definition safe_call :: "pymodule option \<Rightarrow> string \<Rightarrow> json list \<Rightarrow> json \<Rightarrow> json \<times> string list" where
  "safe_call md name args dflt =
     (case md of
        None \<Rightarrow> (dflt, [])
      | Some m \<Rightarrow>
          (case m name of
             None \<Rightarrow> (dflt, [])
           | Some fn \<Rightarrow>
               (case fn args of
                  Some v \<Rightarrow> (v, [])
                | None \<Rightarrow> (dflt, [''safe_call error %s.%s: %s'']))))"

text \<open>The fields of each group: key in the snapshot, function queried, arguments.\<close>

type_synonym field_spec = "string \<times> string \<times> json list"

definition tyre_fields :: "nat \<Rightarrow> field_spec list" where
  "tyre_fields t =
     [(''wear'', ''get_tyre_wear_value'', [JInt (int t)]),
      (''dirty'', ''get_tyre_dirty'', [JInt (int t)]),
      (''pressure'', ''get_tyre_pressure'', [JInt (int t)]),
      (''temp_i'', ''get_tyre_temp'', [JInt (int t), JStr ''i'']),
      (''temp_m'', ''get_tyre_temp'', [JInt (int t), JStr ''m'']),
      (''temp_o'', ''get_tyre_temp'', [JInt (int t), JStr ''o'']),
      (''slip_ratio'', ''get_slip_ratio'', [JInt (int t)]),
      (''slip_angle'', ''get_slip_angle'', [JInt (int t)]),
      (''heading_vector'', ''get_tyre_heading_vector'', [JInt (int t)]),
      (''angular_speed'', ''get_angular_speed'', [JInt (int t)])]"

definition session_fields :: "field_spec list" where
  "session_fields =
     [(''session_type'', ''get_session_type'', []),
      (''driver_name'', ''get_driver_name'', []),
      (''track_name'', ''get_track_name'', []),
      (''track_config'', ''get_track_config'', []),
      (''track_length'', ''get_track_length'', []),
      (''cars_count'', ''get_cars_count'', []),
      (''session_status'', ''get_session_status'', []),
      (''air_temp'', ''get_air_temp'', []),
      (''road_temp'', ''get_road_temp'', [])]"

definition car_fields :: "field_spec list" where
  "car_fields =
     [(''speed_kmh'', ''get_speed'', [JInt 0, JStr ''kmh'']),
      (''speed_mph'', ''get_speed'', [JInt 0, JStr ''mph'']),
      (''speed_ms'', ''get_speed'', [JInt 0, JStr ''ms'']),
      (''location'', ''get_location'', [JInt 0]),
      (''world_location'', ''get_world_location'', [JInt 0]),
      (''position'', ''get_position'', [JInt 0]),
      (''drs_available'', ''get_drs_available'', []),
      (''drs_enabled'', ''get_drs_enabled'', []),
      (''gear'', ''get_gear'', [JInt 0, JBool True]),
      (''rpm'', ''get_rpm'', [JInt 0]),
      (''fuel'', ''get_fuel'', []),
      (''tyres_off_track'', ''get_tyres_off_track'', []),
      (''in_pit_lane'', ''get_car_in_pit_lane'', []),
      (''damage'', ''get_total_damage'', []),
      (''cg_height'', ''get_cg_height'', [JInt 0]),
      (''drive_train_speed'', ''get_drive_train_speed'', [JInt 0]),
      (''velocity'', ''get_velocity'', []),
      (''acceleration'', ''get_acceleration'', [])]"

definition inputs_fields :: "field_spec list" where
  "inputs_fields =
     [(''gas'', ''get_gas_input'', [JInt 0]),
      (''brake'', ''get_brake_input'', [JInt 0]),
      (''clutch'', ''get_clutch'', [JInt 0]),
      (''steer'', ''get_steer_input'', [JInt 0]),
      (''last_ff'', ''get_last_ff'', [JInt 0])]"

definition lap_fields :: "field_spec list" where
  "lap_fields =
     [(''get_current_lap_time'', ''get_current_lap_time'', [JInt 0, JBool False]),
      (''get_last_lap_time'', ''get_last_lap_time'', [JInt 0, JBool False]),
      (''get_best_lap_time'', ''get_best_lap_time'', [JInt 0, JBool False]),
      (''get_splits'', ''get_splits'', [JInt 0, JBool False]),
      (''get_split'', ''get_split'', []),
      (''get_invalid'', ''get_invalid'', [JInt 0]),
      (''get_lap_count'', ''get_lap_count'', [JInt 0]),
      (''get_laps'', ''get_laps'', []),
      (''get_lap_delta'', ''get_lap_delta'', [JInt 0]),
      (''get_current_sector'', ''get_current_sector'', [])]"

definition stats_fields :: "field_spec list" where
  "stats_fields =
     [(''has_drs'', ''get_has_drs'', []),
      (''has_ers'', ''get_has_ers'', []),
      (''has_kers'', ''get_has_kers'', []),
      (''abs_level'', ''abs_level'', []),
      (''max_rpm'', ''get_max_rpm'', []),
      (''max_fuel'', ''get_max_fuel'', [])]"

text \<open>A group is sampled field by field, in order; every query goes through \<open>safe_call\<close>.\<close>

definition sample :: "pymodule option \<Rightarrow> field_spec list \<Rightarrow> (string \<times> json) list" where
  "sample md specs = map (\<lambda>f. (fst f, fst (safe_call md (fst (snd f)) (snd (snd f)) JNull))) specs"

definition sample_log :: "pymodule option \<Rightarrow> field_spec list \<Rightarrow> string list" where
  "sample_log md specs = concat (map (\<lambda>f. snd (safe_call md (fst (snd f)) (snd (snd f)) JNull)) specs)"

definition tyre_sample :: "providers \<Rightarrow> nat \<Rightarrow> json" where
  "tyre_sample P t = JObj ((''index'', JInt (int t)) # sample (Some (tyre_info P)) (tyre_fields t))"

definition payload :: "providers \<Rightarrow> rat \<Rightarrow> json" where
  "payload P now =
     JObj [(''app'', JStr ''AC_RL''),
           (''timestamp'', JFloat (Finite now)),
           (''session'', JObj (sample (Some (session_info P)) session_fields)),
           (''car'', JObj (sample (Some (car_info P)) car_fields)),
           (''inputs'', JObj (sample (Some (input_info P)) inputs_fields)),
           (''lap'', JObj (sample (Some (lap_info P)) lap_fields)),
           (''tyres'', JArr (map (tyre_sample P) [0, 1, 2, 3])),
           (''stats'', JObj (sample (Some (car_stats P)) stats_fields))]"

definition payload_log :: "providers \<Rightarrow> string list" where
  "payload_log P =
     concat (map (\<lambda>t. sample_log (Some (tyre_info P)) (tyre_fields t)) [0, 1, 2, 3]) @
     sample_log (Some (session_info P)) session_fields @
     sample_log (Some (car_info P)) car_fields @
     sample_log (Some (input_info P)) inputs_fields @
     sample_log (Some (lap_info P)) lap_fields @
     sample_log (Some (car_stats P)) stats_fields"

text \<open>
  The label loop calls the tyre functions directly, with no guard of its own: a missing
  attribute or a raising call is an exception, and so is a value that
  \<^verbatim>\<open>"{:.1f}".format\<close> cannot take (anything but a bool, a float, or an int small enough to
  convert to a float), and so is a failing \<^verbatim>\<open>ac.setText\<close>. The text shown is not
  modelled, only whether the loop gets through.
\<close>

definition direct_call :: "pymodule \<Rightarrow> string \<Rightarrow> json list \<Rightarrow> json option" where
  "direct_call m name args = (case m name of None \<Rightarrow> None | Some fn \<Rightarrow> fn args)"

fun formattable :: "json \<Rightarrow> bool" where
  "formattable (JInt i) = (\<bar>i\<bar> < 2 ^ 1024 - 2 ^ 970)"
| "formattable (JFloat x) = True"
| "formattable (JBool b) = True"
| "formattable _ = False"

definition label_reads :: "nat \<Rightarrow> (string \<times> json list) list" where
  "label_reads t =
     [(''get_tyre_wear_value'', [JInt (int t)]),
      (''get_tyre_dirty'', [JInt (int t)]),
      (''get_tyre_pressure'', [JInt (int t)]),
      (''get_tyre_temp'', [JInt (int t), JStr ''i'']),
      (''get_tyre_temp'', [JInt (int t), JStr ''m'']),
      (''get_tyre_temp'', [JInt (int t), JStr ''o''])]"

definition label_ok :: "tio \<Rightarrow> providers \<Rightarrow> nat \<Rightarrow> bool" where
  "label_ok t P i =
     (list_all (\<lambda>r. case direct_call (tyre_info P) (fst r) (snd r) of
                        None \<Rightarrow> False | Some v \<Rightarrow> formattable v) (label_reads i)
      \<and> t_setText_ok t i)"

definition labels_ok :: "tio \<Rightarrow> providers \<Rightarrow> bool" where
  "labels_ok t P = list_all (label_ok t P) [0, 1, 2, 3]"

text \<open>How a call of the tick handler ends: it returns, or an exception leaves it.\<close>

datatype outcome = Returned | Raised

definition ac_log :: "string \<Rightarrow> world \<Rightarrow> world" where
  "ac_log msg w = w\<lparr>w_ac_log := w_ac_log w @ [msg]\<rparr>"

definition telemetry_path :: "tio \<Rightarrow> string" where
  "telemetry_path t = path_join (docs_dir t) ''AC_RL_telemetry.json''"

text \<open>
  The three nested handlers of \<^verbatim>\<open>acUpdate\<close>, innermost first. Each calls \<^verbatim>\<open>ac.log\<close>
  unguarded before \<^verbatim>\<open>file_log\<close>; when \<^verbatim>\<open>ac.log\<close> raises, the exception goes to the next
  handler out, and from the outermost one it leaves the function.
\<close>

definition on_label_error :: "tio \<Rightarrow> state \<Rightarrow> outcome \<times> state" where
  "on_label_error t s =
     (if t_ac_log_raises t ''[AC_RL] Error updating tyre labels: %s''
      then (Raised, s)
      else (Returned, fst s,
            file_log ''Error updating tyre labels: %s''
              (ac_log ''[AC_RL] Error updating tyre labels: %s'' (snd s))))"

definition on_payload_error :: "tio \<Rightarrow> state \<Rightarrow> outcome \<times> state" where
  "on_payload_error t s =
     (if t_ac_log_raises t ''[AC_RL] Error preparing telemetry payload: %s''
      then on_label_error t s
      else (Returned, fst s,
            file_log ''Error preparing telemetry payload: %s''
              (ac_log ''[AC_RL] Error preparing telemetry payload: %s'' (snd s))))"

definition on_write_error :: "tio \<Rightarrow> state \<Rightarrow> outcome \<times> state" where
  "on_write_error t s =
     (if t_ac_log_raises t ''[AC_RL] Error writing telemetry file: %s''
      then on_payload_error t s
      else (Returned, fst s,
            file_log ''Error writing telemetry file: %s''
              (ac_log ''[AC_RL] Error writing telemetry file: %s'' (snd s))))"

text \<open>
  The UDP attempt: made only with a socket, and successful when \<^verbatim>\<open>sendto\<close> takes the
  address and gets the datagram out.
\<close>

definition send_telemetry :: "tio \<Rightarrow> json \<Rightarrow> state \<Rightarrow> bool \<times> world" where
  "send_telemetry t doc s =
     (case telemetry_sock (fst s) of
        None \<Rightarrow> (False, snd s)
      | Some h \<Rightarrow>
          if t_send_ok t \<and> addr_ok (fst (telemetry_addr (fst s))) (snd (telemetry_addr (fst s)))
          then (True, (snd s)\<lparr>w_sent := w_sent (snd s) @ [(h, doc, telemetry_addr (fst s))]\<rparr>)
          else (False, file_log ''Error sending telemetry via UDP: %s'' (snd s)))"

text \<open>\<^verbatim>\<open>acUpdate\<close> after its call of \<^verbatim>\<open>check_input_file\<close>.\<close>

definition publish_tick :: "tio \<Rightarrow> providers option \<Rightarrow> state \<Rightarrow> outcome \<times> state" where
  "publish_tick t api s =
     (case api of
        None \<Rightarrow> (Returned, fst s, file_log ''tyre_info is None; skipping update'' (snd s))
      | Some P \<Rightarrow>
          if \<not> labels_ok t P then on_label_error t s
          else
            let doc = payload P (t_now t);
                w1 = (snd s)\<lparr>w_log := w_log (snd s) @ payload_log P\<rparr>;
                sn = send_telemetry t doc (fst s, w1)
            in if fst sn then (Returned, fst s, snd sn)
               else
                 let wr = atomic_write (t_write t) (t_replace t) (t_rename t)
                            (telemetry_path t @ ''.tmp'') (telemetry_path t) doc (snd sn)
                 in if fst wr then (Returned, fst s, snd wr)
                    else on_write_error t (fst s, snd wr))"

definition acUpdate :: "tio \<Rightarrow> providers option \<Rightarrow> state \<Rightarrow> outcome \<times> state" where
  "acUpdate t api s = publish_tick t api (check_input_file t s)"

text \<open>Reading one field of a snapshot: \<^verbatim>\<open>doc[group][key]\<close> and \<^verbatim>\<open>doc["tyres"][t][key]\<close>.\<close>

definition obj_get :: "json \<Rightarrow> string \<Rightarrow> json option" where
  "obj_get d k = (case d of JObj kv \<Rightarrow> map_of kv k | _ \<Rightarrow> None)"

definition snapshot_field :: "json \<Rightarrow> string \<Rightarrow> string \<Rightarrow> json option" where
  "snapshot_field d grp k = (case obj_get d grp of None \<Rightarrow> None | Some gd \<Rightarrow> obj_get gd k)"

definition snapshot_tyre :: "json \<Rightarrow> nat \<Rightarrow> string \<Rightarrow> json option" where
  "snapshot_tyre d t k =
     (case obj_get d ''tyres'' of
        Some (JArr ts) \<Rightarrow> if t < length ts then obj_get (ts ! t) k else None
      | _ \<Rightarrow> None)"

section \<open>The aggregating receiver\<close>

text \<open>
  The loop of \<^verbatim>\<open>telemetry.py\<close>, one pass per step. A pass is driven by what
  \<^verbatim>\<open>recvfrom\<close> did (a datagram, or the 0.1 s timeout; any other socket error would end
  the loop and is left out) and by the clock read after it.
  Bytes and code points are numbers; the two library calls the classification rests on,
  \<^verbatim>\<open>bytes.decode("utf-8")\<close> and \<^verbatim>\<open>json.loads\<close>, are parameters (\<open>None\<close> when they raise
  \<^verbatim>\<open>UnicodeDecodeError\<close>, \<^verbatim>\<open>ValueError\<close>). What is printed is kept as a list of items.
\<close>

type_synonym bytes = "nat list"
type_synonym pystr = "nat list"
type_synonym peer = "string \<times> nat"

record codec =
  utf8_decode :: "bytes \<Rightarrow> pystr option"
  json_loads :: "pystr \<Rightarrow> json option"

datatype event = Recv bytes peer | Timeout

datatype printed =
    Summary nat nat peer
  | BinaryData
  | HexLine nat bytes
  | Inputs json
  | RawText pystr
  | SomethingWrong

record rstate =
  last_print :: real
  last_pkt :: "(bytes \<times> peer) option"
  pkt_count :: nat

definition receiver_start :: rstate where
  "receiver_start = \<lparr>last_print = 0, last_pkt = None, pkt_count = 0\<rparr>"

text \<open>\<^verbatim>\<open>hexdump(b)\<close>: one line per 16 bytes, with the offset.\<close>

definition hexdump :: "bytes \<Rightarrow> printed list" where
  "hexdump b = map (\<lambda>i. HexLine (16 * i) (take 16 (drop (16 * i) b))) [0 ..< (length b + 15) div 16]"

definition printable :: "pystr \<Rightarrow> bool" where
  "printable cs = list_all (\<lambda>c. (32 \<le> c \<and> c < 127) \<or> c \<in> set [13, 10, 9]) cs"

text \<open>
  The classification after the summary line. The result is what was printed and whether
  the pass went on: \<^verbatim>\<open>json.loads(text)["inputs"]\<close> is guarded for \<^verbatim>\<open>ValueError\<close> only,
  so a document without that key (\<^verbatim>\<open>KeyError\<close>) or one that is not a dict
  (\<^verbatim>\<open>TypeError\<close>) ends the loop with the exception.
\<close>

definition classify :: "codec \<Rightarrow> bytes \<Rightarrow> bool \<times> printed list" where
  "classify C data =
     (case utf8_decode C data of
        None \<Rightarrow> (True, BinaryData # hexdump data)
      | Some txt \<Rightarrow>
          (case json_loads C txt of
             None \<Rightarrow> (True, [if printable txt then RawText txt else SomethingWrong])
           | Some (JObj kv) \<Rightarrow>
               (case map_of kv ''inputs'' of
                  Some obj \<Rightarrow> (True, [Inputs obj])
                | None \<Rightarrow> (False, []))
           | Some _ \<Rightarrow> (False, [])))"

text \<open>One pass of the loop; the state is \<open>None\<close> when an exception ended the loop.\<close>

definition recv_step :: "codec \<Rightarrow> event \<Rightarrow> real \<Rightarrow> rstate \<Rightarrow> rstate option \<times> printed list" where
  "recv_step C ev now st =
     (let st1 = (case ev of
                   Recv data peer \<Rightarrow> st\<lparr>last_pkt := Some (data, peer), pkt_count := pkt_count st + 1\<rparr>
                 | Timeout \<Rightarrow> st)
      in case last_pkt st1 of
           None \<Rightarrow> (Some st1, [])
         | Some dp \<Rightarrow>
             if now - last_print st1 \<ge> 1
             then let c = classify C (fst dp)
                  in (if fst c
                      then Some (st1\<lparr>last_print := now, last_pkt := None, pkt_count := 0\<rparr>)
                      else None,
                      Summary (pkt_count st1) (length (fst dp)) (snd dp) # snd c)
             else (Some st1, []))"

fun recv_loop :: "codec \<Rightarrow> (event \<times> real) list \<Rightarrow> rstate \<Rightarrow> rstate option \<times> printed list" where
  "recv_loop C [] st = (Some st, [])"
| "recv_loop C ((ev, now) # es) st =
     (case fst (recv_step C ev now st) of
        None \<Rightarrow> (None, snd (recv_step C ev now st))
      | Some st' \<Rightarrow>
          (fst (recv_loop C es st'), snd (recv_step C ev now st) @ snd (recv_loop C es st')))"

definition summaries :: "printed list \<Rightarrow> printed list" where
  "summaries ps = filter (\<lambda>p. case p of Summary n k a \<Rightarrow> True | _ \<Rightarrow> False) ps"

definition datagrams :: "(event \<times> real) list \<Rightarrow> (bytes \<times> peer) list" where
  "datagrams es = concat (map (\<lambda>e. case fst e of Recv d a \<Rightarrow> [(d, a)] | Timeout \<Rightarrow> []) es)"

section \<open>Notions for the statements\<close>

text \<open>The four blocks that run before the reset block, as one function.\<close>

definition before_reset :: "hio \<Rightarrow> (string \<times> json) list \<Rightarrow> state \<Rightarrow> state" where
  "before_reset io kv s =
     blk_use_input_udp io kv
       (blk_input_addr io kv (blk_use_udp_telemetry io kv (blk_telemetry_addr io kv s)))"

text \<open>What the endpoint blocks never touch: files, host commands, datagrams, the host log.\<close>

definition untouched :: "world \<Rightarrow> world \<Rightarrow> bool" where
  "untouched w w' = (w_files w' = w_files w \<and> w_host_cmds w' = w_host_cmds w \<and>
                     w_sent w' = w_sent w \<and> w_ac_log w' = w_ac_log w)"

text \<open>
  The invariant of the command-in endpoint: the only socket of that endpoint that can be
  open is the one whose handle the global \<^verbatim>\<open>input_sock\<close> holds.
\<close>

fun holds_only :: "handle option \<Rightarrow> handle list \<Rightarrow> bool" where
  "holds_only None xs = (xs = [])"
| "holds_only (Some h) xs = (xs = [] \<or> xs = [h])"

definition sock_inv :: "state \<Rightarrow> bool" where
  "sock_inv s = holds_only (input_sock (fst s)) (live_command_in (snd s))"

text \<open>Inputs used in the examples: outcomes that all succeed, and the state after start-up.\<close>


definition ok_io :: hio where
  "ok_io = \<lparr>io_tele_socket = True, io_rebind = True, io_enable = True,
            io_sendcmd = Some (\<lambda>c. False), io_write = WriteOk, io_replace = True,
            io_rename = True, io_int_str = int_of_str\<rparr>"

definition started :: state where
  "started = acMain True True (module_globals, empty_world)"



text \<open>
  Two notions for comparing runs: a command with some keys removed, and two states that
  agree on the globals, the sockets, the host commands and the datagrams (all but the
  log and the files).
\<close>

definition without_keys :: "string list \<Rightarrow> (string \<times> json) list \<Rightarrow> (string \<times> json) list" where
  "without_keys ks kv = filter (\<lambda>e. fst e \<notin> set ks) kv"

definition same_effects :: "state \<Rightarrow> state \<Rightarrow> bool" where
  "same_effects s s' =
     (fst s = fst s' \<and> w_socks (snd s) = w_socks (snd s') \<and> w_next (snd s) = w_next (snd s') \<and>
      w_host_cmds (snd s) = w_host_cmds (snd s') \<and> w_sent (snd s) = w_sent (snd s'))"

text \<open>The four blocks that follow the telemetry host/port block.\<close>

definition after_telemetry_addr ::
  "hio \<Rightarrow> (string \<times> json) list \<Rightarrow> string option \<Rightarrow> state \<Rightarrow> state" where
  "after_telemetry_addr io kv path s =
     blk_reset io kv path
       (blk_use_input_udp io kv (blk_input_addr io kv (blk_use_udp_telemetry io kv s)))"

text \<open>
  Notions used to state the publisher's properties: the UDP attempt of a tick gets the
  datagram out; the value a field takes (null when the function is missing or raises,
  else what it returned); and the five keyed groups of the snapshot with their modules.
\<close>

definition udp_goes_out :: "tio \<Rightarrow> globals \<Rightarrow> bool" where
  "udp_goes_out t g =
     (telemetry_sock g \<noteq> None \<and> t_send_ok t \<and>
      addr_ok (fst (telemetry_addr g)) (snd (telemetry_addr g)))"

definition field_value :: "pymodule \<Rightarrow> string \<Rightarrow> json list \<Rightarrow> json" where
  "field_value m name args = (case direct_call m name args of None \<Rightarrow> JNull | Some v \<Rightarrow> v)"

definition field_groups :: "(string \<times> (providers \<Rightarrow> pymodule) \<times> field_spec list) list" where
  "field_groups =
     [(''session'', session_info, session_fields),
      (''car'', car_info, car_fields),
      (''inputs'', input_info, inputs_fields),
      (''lap'', lap_info, lap_fields),
      (''stats'', car_stats, stats_fields)]"

text \<open>
  Example inputs: a data source in which one tyre function is missing and one car
  function raises, a tick on which nothing arrives and every call succeeds, and that
  tick with one datagram carrying a new telemetry port.
\<close>

definition good_api :: providers where
  "good_api =
     \<lparr>tyre_info = (\<lambda>n. if n = ''get_slip_ratio'' then None else Some (\<lambda>a. Some (JInt 1))),
      session_info = (\<lambda>n. Some (\<lambda>a. Some (JStr ''x''))),
      car_info = (\<lambda>n. Some (\<lambda>a. if n = ''get_fuel'' then None else Some (JInt 3))),
      input_info = (\<lambda>n. Some (\<lambda>a. Some (JInt 4))),
      lap_info = (\<lambda>n. Some (\<lambda>a. Some (JInt 5))),
      car_stats = (\<lambda>n. Some (\<lambda>a. Some (JInt 6)))\<rparr>"

definition quiet_tick :: tio where
  "quiet_tick =
     \<lparr>t_docs = Some ''docs'', t_app_dir = ''app'', t_read_ok = True, t_file_io = ok_io,
      t_packets = [], t_now = 5, t_setText_ok = (\<lambda>i. True), t_send_ok = True,
      t_write = WriteOk, t_replace = True, t_rename = True,
      t_ac_log_raises = (\<lambda>m. False)\<rparr>"

definition retarget_tick :: tio where
  "retarget_tick = quiet_tick\<lparr>t_packets := [(Some (JObj [(''telemetry_udp_port'', JInt 9999)]), ok_io)]\<rparr>"



text \<open>
  For the receiver: a codec that decodes ASCII bytes as they are and parses the document
  \<^verbatim>\<open>{}\<close> only (an example input); a stretch of passes that all fall inside the print
  interval that began at \<open>T\<close>; and what such a stretch does to the state.
\<close>

definition example_codec :: codec where
  "example_codec =
     \<lparr>utf8_decode = (\<lambda>b. if list_all (\<lambda>x. x < 128) b then Some b else None),
      json_loads = (\<lambda>t. if t = [123, 125] then Some (JObj []) else None)\<rparr>"

definition quiet :: "real \<Rightarrow> (event \<times> real) list \<Rightarrow> bool" where
  "quiet T es = list_all (\<lambda>e. snd e - T < 1) es"

definition absorb :: "(bytes \<times> peer) list \<Rightarrow> rstate \<Rightarrow> rstate" where
  "absorb ds st =
     (if ds = [] then st
      else st\<lparr>last_pkt := Some (last ds), pkt_count := pkt_count st + length ds\<rparr>)"


text \<open>
  Handles are given out in increasing order: the handle \<^verbatim>\<open>input_sock\<close> holds is below
  the next one to be given out, so a socket created later differs from it. A handle is
  gone when no open command-in socket has it, nor any to come.
\<close>

fun below :: "handle option \<Rightarrow> handle \<Rightarrow> bool" where
  "below None n = True"
| "below (Some h) n = (h < n)"

definition handle_issued :: "state \<Rightarrow> bool" where
  "handle_issued s = below (input_sock (fst s)) (w_next (snd s))"

definition gone :: "handle \<Rightarrow> state \<Rightarrow> bool" where
  "gone h s = (h \<notin> set (live_command_in (snd s)) \<and> h < w_next (snd s))"

text \<open>An example run: a rebind, a rebind whose bind fails, and a re-enable.\<close>

definition rebind_twice :: "(hio \<times> json \<times> string option) list" where
  "rebind_twice =
     [(ok_io, JObj [(''input_udp_port'', JInt 9000)], None),
      (ok_io\<lparr>io_rebind := False\<rparr>, JObj [(''input_udp_host'', JStr ''0.0.0.0'')], None),
      (ok_io, JObj [(''use_input_udp'', JBool True)], None)]"

text \<open>
  A command with both ports malformed, a well-formed telemetry host and a reset.
\<close>

definition malformed_both :: "(string \<times> json) list" where
  "malformed_both =
     [(''telemetry_udp_host'', JStr ''10.0.0.5''), (''telemetry_udp_port'', JStr ''abc''),
      (''input_udp_port'', JStr ''abc''), (''reset'', JBool True)]"

section \<open>Properties of the command processor\<close>

subsection \<open>Frame lemmas\<close>

lemma untouched_trans: "untouched a b \<Longrightarrow> untouched b c \<Longrightarrow> untouched a c"
  by (simp add: untouched_def)

lemma blk_telemetry_addr_untouched: "untouched (snd s) (snd (blk_telemetry_addr io kv s))"
  by (cases s)
     (simp add: untouched_def blk_telemetry_addr_def file_log_def Let_def split: option.splits)

lemma blk_use_udp_telemetry_untouched: "untouched (snd s) (snd (blk_use_udp_telemetry io kv s))"
  by (cases s)
     (simp add: untouched_def blk_use_udp_telemetry_def create_udp_socket_def close_socket_def
        sock_close_def file_log_def Let_def split: option.splits)

lemma blk_input_addr_untouched: "untouched (snd s) (snd (blk_input_addr io kv s))"
  by (cases s)
     (simp add: untouched_def blk_input_addr_def create_udp_socket_def
        sock_close_def file_log_def Let_def split: option.splits)

lemma blk_use_input_udp_untouched: "untouched (snd s) (snd (blk_use_input_udp io kv s))"
  by (cases s)
     (simp add: untouched_def blk_use_input_udp_def create_udp_socket_def close_socket_def
        sock_close_def file_log_def Let_def split: option.splits)

lemma before_reset_untouched: "untouched (snd s) (snd (before_reset io kv s))"
  unfolding before_reset_def
  by (rule untouched_trans [OF untouched_trans [OF untouched_trans
        [OF blk_telemetry_addr_untouched blk_use_udp_telemetry_untouched]
        blk_input_addr_untouched] blk_use_input_udp_untouched])

lemma handle_input_data_JObj:
  "handle_input_data io (JObj kv) path s = blk_reset io kv path (before_reset io kv s)"
  by (simp add: handle_input_data_def before_reset_def)

subsection \<open>The reset block\<close>

lemma call_sendcmd_cmds:
  "w_host_cmds (call_sendcmd (Some r) c w) = w_host_cmds w @ [c]"
  "w_files (call_sendcmd fn c w) = w_files w"
  by (simp_all add: call_sendcmd_def file_log_def Let_def split: option.splits)

lemma atomic_write_host_cmds:
  "w_host_cmds (snd (atomic_write wr rep ren tmp p d w)) = w_host_cmds w"
  by (simp add: atomic_write_def Let_def split: wres.splits)

lemma blk_reset_host_cmds:
  assumes "map_of kv ''reset'' = Some (JBool True)" "io_sendcmd io = Some r"
  shows "w_host_cmds (snd (blk_reset io kv path s)) = w_host_cmds (snd s) @ [68, 69]"
  using assms
  by (cases s; cases path)
     (simp_all add: blk_reset_def case_prod_unfold Let_def file_log_def call_sendcmd_cmds
        atomic_write_host_cmds)

lemma atomic_write_ok:
  "rep \<or> ren \<Longrightarrow> atomic_write WriteOk rep ren tmp p d w =
     (True, w\<lparr>w_files :=
        AList.delete tmp (AList.update p (Doc d) (AList.update tmp (Doc d) (w_files w)))\<rparr>)"
  by (simp add: atomic_write_def Let_def)

lemma blk_reset_files:
  assumes "map_of kv ''reset'' = Some (JBool True)" "p \<noteq> []"
      and "io_write io = WriteOk" "io_replace io \<or> io_rename io"
  shows "w_files (snd (blk_reset io kv (Some p) s)) =
           AList.delete (p @ ''.tmp'')
             (AList.update p (Doc (JObj (AList.update ''reset'' (JBool False) kv)))
               (AList.update (p @ ''.tmp'') (Doc (JObj (AList.update ''reset'' (JBool False) kv)))
                 (w_files (snd s))))"
  using assms
  by (cases s) (simp add: blk_reset_def atomic_write_ok call_sendcmd_cmds Let_def)

lemma moved_lookup:
  "map_of (AList.delete (p @ ''.tmp'') (AList.update p d (AList.update (p @ ''.tmp'') d fs))) p
     = Some d"
  "map_of (AList.delete (p @ ''.tmp'') (AList.update p d (AList.update (p @ ''.tmp'') d fs)))
     (p @ ''.tmp'') = None"
  by (simp_all add: delete_conv update_conv)

lemma reset_rewrites_file:
  assumes "map_of kv ''reset'' = Some (JBool True)" and "p \<noteq> []"
      and "io_write io = WriteOk" and "io_replace io \<or> io_rename io"
  shows "map_of (w_files (snd (handle_input_data io (JObj kv) (Some p) s))) p =
           Some (Doc (JObj (AList.update ''reset'' (JBool False) kv)))"
    and "map_of (w_files (snd (handle_input_data io (JObj kv) (Some p) s))) (p @ ''.tmp'') = None"
proof -
  have u: "w_files (snd (before_reset io kv s)) = w_files (snd s)"
    using before_reset_untouched [of s io kv] by (simp add: untouched_def)
  have f: "w_files (snd (handle_input_data io (JObj kv) (Some p) s)) =
           AList.delete (p @ ''.tmp'')
             (AList.update p (Doc (JObj (AList.update ''reset'' (JBool False) kv)))
               (AList.update (p @ ''.tmp'') (Doc (JObj (AList.update ''reset'' (JBool False) kv)))
                 (w_files (snd s))))"
    using assms u by (simp add: handle_input_data_JObj blk_reset_files)
  show "map_of (w_files (snd (handle_input_data io (JObj kv) (Some p) s))) p =
           Some (Doc (JObj (AList.update ''reset'' (JBool False) kv)))"
    unfolding f by (simp only: moved_lookup)
  show "map_of (w_files (snd (handle_input_data io (JObj kv) (Some p) s))) (p @ ''.tmp'') = None"
    unfolding f by (simp only: moved_lookup)
qed

lemma reset_host_cmds:
  assumes "map_of kv ''reset'' = Some (JBool True)" and "io_sendcmd io = Some raises"
  shows "w_host_cmds (snd (handle_input_data io (JObj kv) path s)) = w_host_cmds (snd s) @ [68, 69]"
proof -
  have "w_host_cmds (snd (before_reset io kv s)) = w_host_cmds (snd s)"
    using before_reset_untouched [of s io kv] by (simp add: untouched_def)
  then show ?thesis
    using assms by (simp add: handle_input_data_JObj blk_reset_host_cmds)
qed

lemma blk_reset_logs_failure:
  assumes "map_of kv ''reset'' = Some (JBool True)" and "io_sendcmd io = Some raises"
      and "raises 68 \<or> raises 69"
  shows "''call_sendcmd failed: %s'' \<in> set (w_log (snd (blk_reset io kv path s)))"
  using assms
  by (cases s; cases path)
     (auto simp: blk_reset_def Let_def case_prod_unfold call_sendcmd_def atomic_write_def
        file_log_def split: wres.splits)

text \<open>
  C2. A command read from a backing file (a non-empty path) whose \<^verbatim>\<open>reset\<close> is
  \<^verbatim>\<open>true\<close>: the host's command function is called exactly twice, with 68 and then 69,
  whether or not either call raises (a raising call is logged); and when the temporary file can be written and the
  replace or the fallback rename goes through, the command file holds a document whose
  \<^verbatim>\<open>reset\<close> is \<^verbatim>\<open>false\<close> and the temporary sibling is gone.
\<close>

theorem reset_one_shot:
  assumes "map_of kv ''reset'' = Some (JBool True)" and "p \<noteq> []"
      and "io_sendcmd io = Some raises"
      and "io_write io = WriteOk" and "io_replace io \<or> io_rename io"
  shows "w_host_cmds (snd (handle_input_data io (JObj kv) (Some p) s)) =
           w_host_cmds (snd s) @ [68, 69] \<and>
         (\<exists>kv'. map_of (w_files (snd (handle_input_data io (JObj kv) (Some p) s))) p =
                  Some (Doc (JObj kv')) \<and> map_of kv' ''reset'' = Some (JBool False)) \<and>
         map_of (w_files (snd (handle_input_data io (JObj kv) (Some p) s))) (p @ ''.tmp'') = None \<and>
         (raises 68 \<or> raises 69 \<longrightarrow>
            ''call_sendcmd failed: %s'' \<in>
              set (w_log (snd (handle_input_data io (JObj kv) (Some p) s))))"
  using reset_host_cmds [OF assms(1,3)] reset_rewrites_file [OF assms(1,2,4,5)]
    blk_reset_logs_failure [OF assms(1,3), of "Some p" "before_reset io kv s"]
  by (simp add: update_conv handle_input_data_JObj)

theorem reset_one_shot_witness:
  "w_host_cmds (snd (handle_input_data
      \<lparr>io_tele_socket = True, io_rebind = True, io_enable = True,
        io_sendcmd = Some (\<lambda>c. c = 68), io_write = WriteOk, io_replace = False,
        io_rename = True, io_int_str = int_of_str\<rparr>
      (JObj [(''reset'', JBool True)]) (Some ''AC_RL_input.json'')
      (module_globals,
       empty_world\<lparr>w_files := [(''AC_RL_input.json'', Doc (JObj [(''reset'', JBool True)]))]\<rparr>)))
     = [68, 69]"
proof -
  have h1: "map_of [(''reset'', JBool True)] ''reset'' = Some (JBool True)" by simp
  have h2: "''AC_RL_input.json'' \<noteq> []" by simp
  show ?thesis
    using reset_one_shot [OF h1 h2, of
        "\<lparr>io_tele_socket = True, io_rebind = True, io_enable = True,
          io_sendcmd = Some (\<lambda>c. c = 68), io_write = WriteOk, io_replace = False,
          io_rename = True, io_int_str = int_of_str\<rparr>" "\<lambda>c. c = 68"
        "(module_globals,
          empty_world\<lparr>w_files := [(''AC_RL_input.json'', Doc (JObj [(''reset'', JBool True)]))]\<rparr>)"]
    by (simp add: empty_world_def)
qed



subsection \<open>Blocks that do nothing\<close>

lemma blk_telemetry_addr_absent:
  "\<not> has_key kv ''telemetry_udp_host'' \<Longrightarrow> \<not> has_key kv ''telemetry_udp_port'' \<Longrightarrow>
   blk_telemetry_addr io kv s = s"
  by (cases s) (simp add: blk_telemetry_addr_def)

lemma blk_input_addr_absent:
  "\<not> has_key kv ''input_udp_host'' \<Longrightarrow> \<not> has_key kv ''input_udp_port'' \<Longrightarrow>
   blk_input_addr io kv s = s"
  by (cases s) (simp add: blk_input_addr_def)

lemma blk_use_udp_telemetry_absent:
  "\<not> has_key kv ''use_udp_telemetry'' \<Longrightarrow> blk_use_udp_telemetry io kv s = s"
  by (cases s) (simp add: blk_use_udp_telemetry_def)

lemma blk_use_input_udp_absent:
  "\<not> has_key kv ''use_input_udp'' \<Longrightarrow> blk_use_input_udp io kv s = s"
  by (cases s) (simp add: blk_use_input_udp_def)

lemma blk_reset_absent:
  "map_of kv ''reset'' \<noteq> Some (JBool True) \<Longrightarrow> blk_reset io kv path s = s"
  by (cases s) (simp add: blk_reset_def)

lemma blk_use_udp_telemetry_same:
  "py_bool (get_or kv ''use_udp_telemetry'' JNull) = (telemetry_sock g \<noteq> None) \<Longrightarrow>
   blk_use_udp_telemetry io kv (g, w) = (g, w)"
  by (auto simp: blk_use_udp_telemetry_def Let_def)

lemma blk_use_input_udp_same:
  "py_bool (get_or kv ''use_input_udp'' JNull) = (input_sock g \<noteq> None) \<Longrightarrow>
   blk_use_input_udp io kv (g, w) = (g, w)"
  by (auto simp: blk_use_input_udp_def Let_def)

text \<open>
  C5. A command that only asks for what already is: \<^verbatim>\<open>use_udp_telemetry\<close> truthy with
  the telemetry socket open or falsy with none, \<^verbatim>\<open>use_input_udp\<close> truthy with the
  command socket open or falsy with none (and no other recognised key acting). The
  command processor leaves the globals (hosts, ports, addresses, both handles) and the
  world (sockets, files, log) exactly as they were.
\<close>

theorem toggle_idempotent:
  assumes "\<not> has_key kv ''telemetry_udp_host''" and "\<not> has_key kv ''telemetry_udp_port''"
      and "\<not> has_key kv ''input_udp_host''" and "\<not> has_key kv ''input_udp_port''"
      and "map_of kv ''reset'' \<noteq> Some (JBool True)"
      and "has_key kv ''use_udp_telemetry'' \<Longrightarrow>
             py_bool (get_or kv ''use_udp_telemetry'' JNull) = (telemetry_sock g \<noteq> None)"
      and "has_key kv ''use_input_udp'' \<Longrightarrow>
             py_bool (get_or kv ''use_input_udp'' JNull) = (input_sock g \<noteq> None)"
  shows "handle_input_data io (JObj kv) path (g, w) = (g, w)"
proof -
  have t: "blk_use_udp_telemetry io kv (g, w) = (g, w)"
    using assms(6) blk_use_udp_telemetry_absent blk_use_udp_telemetry_same by blast
  have i: "blk_use_input_udp io kv (g, w) = (g, w)"
    using assms(7) blk_use_input_udp_absent blk_use_input_udp_same by blast
  show ?thesis
    using assms(1-5) t i
    by (simp add: handle_input_data_def blk_telemetry_addr_absent blk_input_addr_absent
        blk_reset_absent)
qed



lemma blk_reset_globals: "fst (blk_reset io kv path s) = fst s"
  by (cases s; cases path)
     (simp_all add: blk_reset_def case_prod_unfold Let_def)

lemma blk_telemetry_addr_input_side:
  "INPUT_UDP_HOST (fst (blk_telemetry_addr io kv s)) = INPUT_UDP_HOST (fst s) \<and>
   INPUT_UDP_PORT (fst (blk_telemetry_addr io kv s)) = INPUT_UDP_PORT (fst s) \<and>
   input_sock (fst (blk_telemetry_addr io kv s)) = input_sock (fst s) \<and>
   input_addr (fst (blk_telemetry_addr io kv s)) = input_addr (fst s)"
  by (cases s) (simp add: blk_telemetry_addr_def Let_def split: option.splits)

lemma blk_use_udp_telemetry_input_side:
  "INPUT_UDP_HOST (fst (blk_use_udp_telemetry io kv s)) = INPUT_UDP_HOST (fst s) \<and>
   INPUT_UDP_PORT (fst (blk_use_udp_telemetry io kv s)) = INPUT_UDP_PORT (fst s) \<and>
   input_sock (fst (blk_use_udp_telemetry io kv s)) = input_sock (fst s) \<and>
   input_addr (fst (blk_use_udp_telemetry io kv s)) = input_addr (fst s)"
  by (cases s) (simp add: blk_use_udp_telemetry_def Let_def case_prod_unfold)

lemma create_udp_socket_fails:
  "\<not> (ok \<and> addr_ok host p) \<Longrightarrow> fst (create_udp_socket ok True host p blk w) = None"
  by (simp add: create_udp_socket_def)

lemma blk_input_addr_rebind:
  assumes "has_key kv ''input_udp_host'' \<or> has_key kv ''input_udp_port''"
      and "py_int (io_int_str io) (get_or kv ''input_udp_port'' (JInt (INPUT_UDP_PORT (fst s)))) = Some p"
  shows "INPUT_UDP_HOST (fst (blk_input_addr io kv s)) = get_or kv ''input_udp_host'' (INPUT_UDP_HOST (fst s)) \<and>
         INPUT_UDP_PORT (fst (blk_input_addr io kv s)) = p \<and>
         input_addr (fst (blk_input_addr io kv s)) = (get_or kv ''input_udp_host'' (INPUT_UDP_HOST (fst s)), p) \<and>
         input_sock (fst (blk_input_addr io kv s)) =
           (if io_rebind io \<and> addr_ok (get_or kv ''input_udp_host'' (INPUT_UDP_HOST (fst s))) p
            then Some (w_next (snd s)) else None)"
  using assms
  by (cases s)
     (auto simp: blk_input_addr_def Let_def case_prod_unfold create_udp_socket_def sock_close_def
        split: option.splits)

lemma blk_use_input_udp_config:
  "INPUT_UDP_HOST (fst (blk_use_input_udp io kv s)) = INPUT_UDP_HOST (fst s) \<and>
   INPUT_UDP_PORT (fst (blk_use_input_udp io kv s)) = INPUT_UDP_PORT (fst s) \<and>
   input_addr (fst (blk_use_input_udp io kv s)) = input_addr (fst s)"
  by (cases s) (simp add: blk_use_input_udp_def Let_def case_prod_unfold)

lemma blk_use_input_udp_stays_closed:
  assumes "input_sock (fst s) = None"
      and "\<not> (has_key kv ''use_input_udp'' \<and> py_bool (get_or kv ''use_input_udp'' JNull) \<and>
              io_enable io \<and> addr_ok (INPUT_UDP_HOST (fst s)) (INPUT_UDP_PORT (fst s)))"
  shows "input_sock (fst (blk_use_input_udp io kv s)) = None"
  using assms
  by (cases s)
     (auto simp: blk_use_input_udp_def Let_def case_prod_unfold create_udp_socket_def)

text \<open>
  C10. A command with \<^verbatim>\<open>input_udp_host\<close> or \<^verbatim>\<open>input_udp_port\<close> whose port converts to
  an integer, when creating or binding the new socket fails (and no \<^verbatim>\<open>use_input_udp\<close>
  in the same command opens one afterwards): the processor ends with the new host and
  port in the configuration and in \<^verbatim>\<open>input_addr\<close>, and with \<^verbatim>\<open>input_sock\<close> null.
\<close>

theorem rebind_failure_keeps_new_config:
  assumes keys: "has_key kv ''input_udp_host'' \<or> has_key kv ''input_udp_port''"
      and port: "py_int (io_int_str io) (get_or kv ''input_udp_port'' (JInt (INPUT_UDP_PORT g))) = Some p"
      and host: "host = get_or kv ''input_udp_host'' (INPUT_UDP_HOST g)"
      and fails: "\<not> (io_rebind io \<and> addr_ok host p)"
      and later: "\<not> (has_key kv ''use_input_udp'' \<and> py_bool (get_or kv ''use_input_udp'' JNull) \<and>
                     io_enable io \<and> addr_ok host p)"
  shows "INPUT_UDP_HOST (fst (handle_input_data io (JObj kv) path (g, w))) = host \<and>
         INPUT_UDP_PORT (fst (handle_input_data io (JObj kv) path (g, w))) = p \<and>
         input_addr (fst (handle_input_data io (JObj kv) path (g, w))) = (host, p) \<and>
         input_sock (fst (handle_input_data io (JObj kv) path (g, w))) = None"
proof -
  define s2 where "s2 = blk_use_udp_telemetry io kv (blk_telemetry_addr io kv (g, w))"
  define s3 where "s3 = blk_input_addr io kv s2"
  have pre: "INPUT_UDP_HOST (fst s2) = INPUT_UDP_HOST g" "INPUT_UDP_PORT (fst s2) = INPUT_UDP_PORT g"
    using blk_use_udp_telemetry_input_side [of io kv "blk_telemetry_addr io kv (g, w)"]
          blk_telemetry_addr_input_side [of io kv "(g, w)"]
    by (simp_all add: s2_def)
  have r: "INPUT_UDP_HOST (fst s3) = host \<and> INPUT_UDP_PORT (fst s3) = p \<and>
           input_addr (fst s3) = (host, p) \<and> input_sock (fst s3) = None"
    using blk_input_addr_rebind [where kv = kv and s = s2 and p = p and io = io] keys port host fails
    by (simp add: s3_def pre)
  have c: "input_sock (fst (blk_use_input_udp io kv s3)) = None"
    using blk_use_input_udp_stays_closed [of s3 kv io] r later by simp
  have h: "fst (handle_input_data io (JObj kv) path (g, w)) = fst (blk_use_input_udp io kv s3)"
    by (simp add: handle_input_data_def blk_reset_globals s3_def s2_def)
  show ?thesis
    using r c blk_use_input_udp_config [of io kv s3] by (simp add: h)
qed

lemma update_reset_keys:
  "map_of kv ''reset'' = Some v \<Longrightarrow> map fst (AList.update ''reset'' v' kv) = map fst kv"
  by (simp add: update_keys map_of_eq_None_iff [symmetric] del: map_of_eq_None_iff)



lemma holds_only_filter: "holds_only ho xs \<Longrightarrow> holds_only ho (filter (\<lambda>x. x \<noteq> k) xs)"
  by (cases ho) (auto split: if_splits)

lemma holds_only_closed: "holds_only (Some h) xs \<Longrightarrow> filter (\<lambda>x. x \<noteq> h) xs = []"
  by auto

lemma holds_only_Nil: "holds_only ho []"
  by (cases ho) simp_all

lemma holds_only_None: "holds_only None xs \<Longrightarrow> xs = []"
  by simp

lemma holds_only_length: "holds_only ho xs \<Longrightarrow> length xs \<le> 1"
  by (cases ho) auto

lemma live_file_log: "live_command_in (file_log m w) = live_command_in w"
  by (simp add: live_command_in_def file_log_def)

lemma live_sock_close:
  "live_command_in (sock_close h w) = filter (\<lambda>x. x \<noteq> h) (live_command_in w)"
  by (simp add: live_command_in_def sock_close_def filter_map comp_def conj_commute)

lemma live_close_socket:
  "live_command_in (close_socket sk w) =
     (case sk of None \<Rightarrow> live_command_in w | Some h \<Rightarrow> filter (\<lambda>x. x \<noteq> h) (live_command_in w))"
  by (simp add: close_socket_def live_file_log live_sock_close split: option.splits)

lemma live_create:
  "live_command_in (snd (create_udp_socket ok b host p blk w)) =
     live_command_in w @ (if ok \<and> b \<and> addr_ok host p then [w_next w] else [])"
  by (simp add: create_udp_socket_def live_command_in_def file_log_def)

lemma fst_create:
  "fst (create_udp_socket ok b host p blk w) =
     (if ok \<and> (if b then addr_ok host p else True) then Some (w_next w) else None)"
  by (simp add: create_udp_socket_def)

lemma sock_inv_blk_telemetry_addr: "sock_inv s \<Longrightarrow> sock_inv (blk_telemetry_addr io kv s)"
  by (cases s)
     (simp add: sock_inv_def blk_telemetry_addr_def Let_def live_file_log split: option.splits)

lemma sock_inv_blk_use_udp_telemetry: "sock_inv s \<Longrightarrow> sock_inv (blk_use_udp_telemetry io kv s)"
  by (cases s)
     (simp add: sock_inv_def blk_use_udp_telemetry_def Let_def case_prod_unfold live_file_log
        live_close_socket live_create holds_only_filter split: option.splits)

lemma sock_inv_blk_input_addr: "sock_inv s \<Longrightarrow> sock_inv (blk_input_addr io kv s)"
proof (cases s)
  case (Pair g w)
  assume inv: "sock_inv s"
  have closed: "live_command_in (case input_sock g of None \<Rightarrow> w | Some h \<Rightarrow> sock_close h w) = []"
    using inv Pair
    by (cases "input_sock g") (simp_all add: sock_inv_def live_sock_close holds_only_closed)
  show ?thesis
    using inv Pair closed
    by (simp add: sock_inv_def blk_input_addr_def Let_def case_prod_unfold live_file_log
        live_create fst_create holds_only_Nil split: option.splits)
qed

lemma sock_inv_blk_use_input_udp: "sock_inv s \<Longrightarrow> sock_inv (blk_use_input_udp io kv s)"
proof (cases s)
  case (Pair g w)
  assume inv: "sock_inv s"
  show ?thesis
  proof (cases "input_sock g")
    case None
    then have "live_command_in w = []"
      using inv Pair by (simp add: sock_inv_def)
    then show ?thesis
      using None Pair
      by (simp add: sock_inv_def blk_use_input_udp_def Let_def case_prod_unfold live_file_log
          live_create fst_create holds_only_Nil)
  next
    case (Some h)
    then have "filter (\<lambda>x. x \<noteq> h) (live_command_in w) = []"
      using inv Pair by (simp add: sock_inv_def holds_only_closed)
    then show ?thesis
      using Some Pair inv
      by (simp add: sock_inv_def blk_use_input_udp_def Let_def live_file_log
          live_close_socket)
  qed
qed

lemma live_call_sendcmd: "live_command_in (call_sendcmd fn c w) = live_command_in w"
  by (simp add: call_sendcmd_def live_command_in_def file_log_def Let_def split: option.splits)

lemma live_atomic_write: "live_command_in (snd (atomic_write wr rep ren tmp p d w)) = live_command_in w"
  by (simp add: atomic_write_def live_command_in_def Let_def split: wres.splits)

lemma live_blk_reset: "live_command_in (snd (blk_reset io kv path s)) = live_command_in (snd s)"
  by (cases s; cases path)
     (simp_all add: blk_reset_def case_prod_unfold Let_def live_file_log live_call_sendcmd
        live_atomic_write)

lemma sock_inv_blk_reset: "sock_inv s \<Longrightarrow> sock_inv (blk_reset io kv path s)"
  by (simp add: sock_inv_def live_blk_reset blk_reset_globals)

lemma sock_inv_handle_input_data: "sock_inv s \<Longrightarrow> sock_inv (handle_input_data io cmd path s)"
  by (cases cmd)
     (simp_all add: handle_input_data_def sock_inv_blk_reset sock_inv_blk_use_input_udp
        sock_inv_blk_input_addr sock_inv_blk_use_udp_telemetry sock_inv_blk_telemetry_addr)

lemma sock_inv_process_all: "sock_inv s \<Longrightarrow> sock_inv (process_all cs s)"
proof (induction cs arbitrary: s)
  case Nil
  then show ?case by simp
next
  case (Cons c cs)
  obtain io cmd path where c: "c = (io, cmd, path)"
    by (cases c)
  have "sock_inv (handle_input_data io cmd path s)"
    using Cons.prems by (rule sock_inv_handle_input_data)
  then have "sock_inv (process_all cs (handle_input_data io cmd path s))"
    by (rule Cons.IH)
  then show ?case
    by (simp add: c)
qed

lemma sock_inv_at_most_one: "sock_inv s \<Longrightarrow> length (live_command_in (snd s)) \<le> 1"
  unfolding sock_inv_def by (rule holds_only_length)

lemma sock_inv_acMain:
  "live_command_in w = [] \<Longrightarrow> sock_inv (acMain tele_ok in_ok (g, w))"
  by (simp add: sock_inv_def acMain_def Let_def live_file_log live_create fst_create holds_only_Nil)

subsection \<open>Examples for the command processor, and the rewritten file\<close>

lemma started_eval:
  "started =
     (module_globals\<lparr>telemetry_sock := Some 0, input_sock := Some 1\<rparr>,
      empty_world\<lparr>w_socks := [(0, \<lparr>bound_to = None, blocking = True\<rparr>),
                               (1, \<lparr>bound_to = Some (JStr ''127.0.0.1'', 9877), blocking = False\<rparr>)],
                  w_next := 2,
                  w_log := [''acMain starting'',
                            ''AC_RL telemetry configured for UDP %s:%d and file %s'',
                            ''Telemetry UDP socket created to %s:%d'',
                            ''Input UDP socket bound to %s:%d'']\<rparr>)"
  by (simp add: started_def acMain_def module_globals_def empty_world_def create_udp_socket_def
      file_log_def Let_def)

theorem toggle_idempotent_witness:
  "handle_input_data ok_io
     (JObj [(''use_udp_telemetry'', JBool True), (''use_input_udp'', JInt 1)]) None started
   = started"
proof -
  obtain g w where s: "started = (g, w)"
    by (cases started)
  have g: "telemetry_sock g = Some 0" "input_sock g = Some 1"
    using s by (auto simp: started_eval)
  show ?thesis
    unfolding s
    by (rule toggle_idempotent) (simp_all add: has_key_def get_or_def g)
qed

theorem rebind_failure_keeps_new_config_witness:
  "INPUT_UDP_HOST (fst (handle_input_data ok_io (JObj [(''input_udp_port'', JStr ''70000'')]) None
       (module_globals, empty_world))) = JStr ''127.0.0.1'' \<and>
   INPUT_UDP_PORT (fst (handle_input_data ok_io (JObj [(''input_udp_port'', JStr ''70000'')]) None
       (module_globals, empty_world))) = 70000 \<and>
   input_addr (fst (handle_input_data ok_io (JObj [(''input_udp_port'', JStr ''70000'')]) None
       (module_globals, empty_world))) = (JStr ''127.0.0.1'', 70000) \<and>
   input_sock (fst (handle_input_data ok_io (JObj [(''input_udp_port'', JStr ''70000'')]) None
       (module_globals, empty_world))) = None"
proof -
  have p: "io_int_str ok_io ''70000'' = Some 70000"
    by (simp add: ok_io_def int_of_str_def strip_def is_space_def parse_digits_def is_digit_def
        digits_value_def)
  show ?thesis
    by (rule rebind_failure_keeps_new_config [where p = 70000])
       (simp_all add: has_key_def get_or_def module_globals_def p)
qed

text \<open>
  C9. When \<^verbatim>\<open>reset\<close> is consumed from a backing file and the write goes through, the
  file holds the whole mapping that was read, with the value of \<^verbatim>\<open>reset\<close> replaced by
  \<^verbatim>\<open>false\<close>: the keys are the same, in the same order, and every other key, recognised
  or not, has the value it had.
\<close>

theorem reset_preserves_other_keys:
  assumes "map_of kv ''reset'' = Some (JBool True)" and "p \<noteq> []"
      and "io_write io = WriteOk" and "io_replace io \<or> io_rename io"
  shows "map_of (w_files (snd (handle_input_data io (JObj kv) (Some p) s))) p =
           Some (Doc (JObj (AList.update ''reset'' (JBool False) kv))) \<and>
         map fst (AList.update ''reset'' (JBool False) kv) = map fst kv \<and>
         (\<forall>k. k \<noteq> ''reset'' \<longrightarrow>
              map_of (AList.update ''reset'' (JBool False) kv) k = map_of kv k)"
  using reset_rewrites_file(1) [OF assms] update_reset_keys [OF assms(1)]
  by (simp add: update_conv)

theorem reset_preserves_other_keys_witness:
  "map_of (w_files (snd (handle_input_data ok_io
       (JObj [(''telemetry_udp_port'', JInt 9999), (''reset'', JBool True), (''note'', JStr ''x'')])
       (Some ''docs/AC_RL_input.json'') started))) ''docs/AC_RL_input.json'' =
     Some (Doc (JObj [(''telemetry_udp_port'', JInt 9999), (''reset'', JBool False),
                      (''note'', JStr ''x'')]))"
  using reset_preserves_other_keys [of
      "[(''telemetry_udp_port'', JInt 9999), (''reset'', JBool True), (''note'', JStr ''x'')]"
      "''docs/AC_RL_input.json''" ok_io started]
  by (simp add: ok_io_def)

subsection \<open>Malformed ports, and retargeting\<close>

lemma map_of_without_keys:
  "map_of (without_keys ks kv) k = (if k \<in> set ks then None else map_of kv k)"
  by (induction kv) (auto simp: without_keys_def)

lemma same_effects_blk_use_udp_telemetry:
  assumes "same_effects s s'"
      and "map_of kv' ''use_udp_telemetry'' = map_of kv ''use_udp_telemetry''"
  shows "same_effects (blk_use_udp_telemetry io kv s) (blk_use_udp_telemetry io kv' s')"
  using assms
  by (cases s; cases s')
     (simp add: same_effects_def blk_use_udp_telemetry_def has_key_def get_or_def Let_def
        case_prod_unfold create_udp_socket_def close_socket_def sock_close_def file_log_def
        split: option.splits)

lemma same_effects_blk_input_addr:
  assumes "same_effects s s'"
      and "map_of kv' ''input_udp_host'' = map_of kv ''input_udp_host''"
      and "map_of kv' ''input_udp_port'' = map_of kv ''input_udp_port''"
  shows "same_effects (blk_input_addr io kv s) (blk_input_addr io kv' s')"
  using assms
  by (cases s; cases s')
     (simp add: same_effects_def blk_input_addr_def has_key_def get_or_def Let_def
        case_prod_unfold create_udp_socket_def sock_close_def file_log_def
        split: option.splits)

lemma same_effects_blk_use_input_udp:
  assumes "same_effects s s'"
      and "map_of kv' ''use_input_udp'' = map_of kv ''use_input_udp''"
  shows "same_effects (blk_use_input_udp io kv s) (blk_use_input_udp io kv' s')"
  using assms
  by (cases s; cases s')
     (simp add: same_effects_def blk_use_input_udp_def has_key_def get_or_def Let_def
        case_prod_unfold create_udp_socket_def close_socket_def sock_close_def file_log_def
        split: option.splits)

lemma atomic_write_effects:
  "w_socks (snd (atomic_write wr rep ren tmp p d w)) = w_socks w \<and>
   w_next (snd (atomic_write wr rep ren tmp p d w)) = w_next w \<and>
   w_host_cmds (snd (atomic_write wr rep ren tmp p d w)) = w_host_cmds w \<and>
   w_sent (snd (atomic_write wr rep ren tmp p d w)) = w_sent w"
  by (simp add: atomic_write_def Let_def split: wres.splits)

lemma call_sendcmd_effects:
  "w_socks (call_sendcmd fn c w) = w_socks w \<and> w_next (call_sendcmd fn c w) = w_next w \<and>
   w_sent (call_sendcmd fn c w) = w_sent w \<and>
   w_host_cmds (call_sendcmd fn c w) = w_host_cmds w @ (case fn of None \<Rightarrow> [] | Some r \<Rightarrow> [c])"
  by (simp add: call_sendcmd_def file_log_def Let_def split: option.splits)

lemma same_effects_blk_reset:
  assumes "same_effects s s'"
      and "map_of kv' ''reset'' = map_of kv ''reset''"
  shows "same_effects (blk_reset io kv path s) (blk_reset io kv' path s')"
  using assms
  by (cases s; cases s'; cases path)
     (simp_all add: same_effects_def blk_reset_def Let_def case_prod_unfold file_log_def
        atomic_write_effects call_sendcmd_effects)

lemma blk_telemetry_addr_malformed:
  assumes "has_key kv ''telemetry_udp_host'' \<or> has_key kv ''telemetry_udp_port''"
      and "py_int (io_int_str io) (get_or kv ''telemetry_udp_port'' (JInt (TELEMETRY_UDP_PORT g))) = None"
  shows "blk_telemetry_addr io kv (g, w) = (g, file_log ''Invalid telemetry_udp_port in input: %s'' w)"
  using assms by (auto simp: blk_telemetry_addr_def Let_def)

lemma blk_input_addr_malformed:
  assumes "has_key kv ''input_udp_host'' \<or> has_key kv ''input_udp_port''"
      and "py_int (io_int_str io) (get_or kv ''input_udp_port'' (JInt (INPUT_UDP_PORT g))) = None"
  shows "blk_input_addr io kv (g, w) = (g, file_log ''Invalid input_udp_port in input: %s'' w)"
  using assms by (auto simp: blk_input_addr_def Let_def)

lemma same_effects_after_telemetry_addr:
  assumes "same_effects s s'"
      and "\<forall>k \<in> set [''use_udp_telemetry'', ''input_udp_host'', ''input_udp_port'',
                       ''use_input_udp'', ''reset'']. map_of kv' k = map_of kv k"
  shows "same_effects (after_telemetry_addr io kv path s) (after_telemetry_addr io kv' path s')"
  unfolding after_telemetry_addr_def
  using assms
  by (intro same_effects_blk_reset same_effects_blk_use_input_udp same_effects_blk_input_addr
      same_effects_blk_use_udp_telemetry) simp_all

lemma blk_telemetry_addr_log_only:
  "same_effects (g, file_log m w) (g, w)"
  by (simp add: same_effects_def file_log_def)

lemma telemetry_config_after:
  "TELEMETRY_UDP_HOST (fst (after_telemetry_addr io kv path s)) = TELEMETRY_UDP_HOST (fst s) \<and>
   TELEMETRY_UDP_PORT (fst (after_telemetry_addr io kv path s)) = TELEMETRY_UDP_PORT (fst s)"
proof -
  have a: "TELEMETRY_UDP_HOST (fst (blk_use_udp_telemetry io kv s)) = TELEMETRY_UDP_HOST (fst s) \<and>
           TELEMETRY_UDP_PORT (fst (blk_use_udp_telemetry io kv s)) = TELEMETRY_UDP_PORT (fst s)" for s
    by (cases s) (simp add: blk_use_udp_telemetry_def Let_def case_prod_unfold)
  have b: "TELEMETRY_UDP_HOST (fst (blk_input_addr io kv s)) = TELEMETRY_UDP_HOST (fst s) \<and>
           TELEMETRY_UDP_PORT (fst (blk_input_addr io kv s)) = TELEMETRY_UDP_PORT (fst s)" for s
    by (cases s) (simp add: blk_input_addr_def Let_def case_prod_unfold split: option.splits)
  have c: "TELEMETRY_UDP_HOST (fst (blk_use_input_udp io kv s)) = TELEMETRY_UDP_HOST (fst s) \<and>
           TELEMETRY_UDP_PORT (fst (blk_use_input_udp io kv s)) = TELEMETRY_UDP_PORT (fst s)" for s
    by (cases s) (simp add: blk_use_input_udp_def Let_def case_prod_unfold)
  show ?thesis
    by (simp add: after_telemetry_addr_def blk_reset_globals a b c)
qed

lemma log_mono_after:
  "set (w_log (snd s)) \<subseteq> set (w_log (snd (after_telemetry_addr io kv path s)))"
proof -
  have a: "set (w_log (snd s)) \<subseteq> set (w_log (snd (blk_use_udp_telemetry io kv s)))" for s
    by (cases s) (auto simp: blk_use_udp_telemetry_def Let_def case_prod_unfold
        create_udp_socket_def close_socket_def sock_close_def file_log_def split: option.splits)
  have b: "set (w_log (snd s)) \<subseteq> set (w_log (snd (blk_input_addr io kv s)))" for s
    by (cases s) (auto simp: blk_input_addr_def Let_def case_prod_unfold
        create_udp_socket_def sock_close_def file_log_def split: option.splits)
  have c: "set (w_log (snd s)) \<subseteq> set (w_log (snd (blk_use_input_udp io kv s)))" for s
    by (cases s) (auto simp: blk_use_input_udp_def Let_def case_prod_unfold
        create_udp_socket_def close_socket_def sock_close_def file_log_def split: option.splits)
  have d: "set (w_log (snd s)) \<subseteq> set (w_log (snd (blk_reset io kv path s)))" for s
    by (cases s; cases path)
       (auto simp: blk_reset_def Let_def case_prod_unfold call_sendcmd_def atomic_write_def
          file_log_def split: option.splits wres.splits)
  show ?thesis
    unfolding after_telemetry_addr_def
    using a b c d by (meson subset_trans)
qed

lemma malformed_telemetry_port:
  assumes "has_key kv ''telemetry_udp_host'' \<or> has_key kv ''telemetry_udp_port''"
      and "py_int (io_int_str io) (get_or kv ''telemetry_udp_port'' (JInt (TELEMETRY_UDP_PORT g))) = None"
  shows "handle_input_data io (JObj kv) path (g, w) =
           after_telemetry_addr io kv path
             (g, file_log ''Invalid telemetry_udp_port in input: %s'' w) \<and>
         ''Invalid telemetry_udp_port in input: %s'' \<in>
           set (w_log (snd (handle_input_data io (JObj kv) path (g, w)))) \<and>
         TELEMETRY_UDP_HOST (fst (handle_input_data io (JObj kv) path (g, w))) =
           TELEMETRY_UDP_HOST g \<and>
         TELEMETRY_UDP_PORT (fst (handle_input_data io (JObj kv) path (g, w))) =
           TELEMETRY_UDP_PORT g \<and>
         same_effects (handle_input_data io (JObj kv) path (g, w))
           (handle_input_data io
              (JObj (without_keys [''telemetry_udp_host'', ''telemetry_udp_port''] kv)) path (g, w))"
proof -
  let ?m = "''Invalid telemetry_udp_port in input: %s''"
  let ?kv' = "without_keys [''telemetry_udp_host'', ''telemetry_udp_port''] kv"
  have h: "handle_input_data io (JObj kv) path (g, w) =
             after_telemetry_addr io kv path (g, file_log ?m w)"
    using blk_telemetry_addr_malformed [OF assms]
    by (simp add: handle_input_data_def after_telemetry_addr_def)
  have l: "?m \<in> set (w_log (snd (after_telemetry_addr io kv path (g, file_log ?m w))))"
    using log_mono_after [of "(g, file_log ?m w)" io kv path]
    by (auto simp: file_log_def)
  have c: "TELEMETRY_UDP_HOST (fst (after_telemetry_addr io kv path (g, file_log ?m w))) =
             TELEMETRY_UDP_HOST g \<and>
           TELEMETRY_UDP_PORT (fst (after_telemetry_addr io kv path (g, file_log ?m w))) =
             TELEMETRY_UDP_PORT g"
    using telemetry_config_after [of io kv path "(g, file_log ?m w)"] by simp
  have h': "handle_input_data io (JObj ?kv') path (g, w) = after_telemetry_addr io ?kv' path (g, w)"
    by (simp add: handle_input_data_def after_telemetry_addr_def blk_telemetry_addr_absent
        has_key_def map_of_without_keys)
  have e: "same_effects (after_telemetry_addr io kv path (g, file_log ?m w))
             (after_telemetry_addr io ?kv' path (g, w))"
    by (rule same_effects_after_telemetry_addr [OF blk_telemetry_addr_log_only])
       (simp add: map_of_without_keys)
  show ?thesis
    using l c e by (simp add: h h')
qed

lemma blk_telemetry_addr_cong:
  assumes "map_of kv' ''telemetry_udp_host'' = map_of kv ''telemetry_udp_host''"
      and "map_of kv' ''telemetry_udp_port'' = map_of kv ''telemetry_udp_port''"
  shows "blk_telemetry_addr io kv' s = blk_telemetry_addr io kv s"
  using assms by (cases s) (simp add: blk_telemetry_addr_def has_key_def get_or_def)

lemma blk_use_udp_telemetry_cong:
  assumes "map_of kv' ''use_udp_telemetry'' = map_of kv ''use_udp_telemetry''"
  shows "blk_use_udp_telemetry io kv' s = blk_use_udp_telemetry io kv s"
  using assms by (cases s) (simp add: blk_use_udp_telemetry_def has_key_def get_or_def)

lemma log_mono_blk_use_input_udp:
  "set (w_log (snd s)) \<subseteq> set (w_log (snd (blk_use_input_udp io kv s)))"
  by (cases s) (auto simp: blk_use_input_udp_def Let_def case_prod_unfold
      create_udp_socket_def close_socket_def sock_close_def file_log_def split: option.splits)

lemma log_mono_blk_reset:
  "set (w_log (snd s)) \<subseteq> set (w_log (snd (blk_reset io kv path s)))"
  by (cases s; cases path)
     (auto simp: blk_reset_def Let_def case_prod_unfold call_sendcmd_def atomic_write_def
        file_log_def split: option.splits wres.splits)

lemma malformed_input_port:
  assumes "has_key kv ''input_udp_host'' \<or> has_key kv ''input_udp_port''"
      and "py_int (io_int_str io) (get_or kv ''input_udp_port'' (JInt (INPUT_UDP_PORT g))) = None"
  shows "''Invalid input_udp_port in input: %s'' \<in>
           set (w_log (snd (handle_input_data io (JObj kv) path (g, w)))) \<and>
         INPUT_UDP_HOST (fst (handle_input_data io (JObj kv) path (g, w))) = INPUT_UDP_HOST g \<and>
         INPUT_UDP_PORT (fst (handle_input_data io (JObj kv) path (g, w))) = INPUT_UDP_PORT g \<and>
         same_effects (handle_input_data io (JObj kv) path (g, w))
           (handle_input_data io
              (JObj (without_keys [''input_udp_host'', ''input_udp_port''] kv)) path (g, w))"
proof -
  let ?m = "''Invalid input_udp_port in input: %s''"
  let ?kv' = "without_keys [''input_udp_host'', ''input_udp_port''] kv"
  define s2 where "s2 = blk_use_udp_telemetry io kv (blk_telemetry_addr io kv (g, w))"
  obtain g2 w2 where p2: "s2 = (g2, w2)"
    by (cases s2)
  have side: "INPUT_UDP_HOST g2 = INPUT_UDP_HOST g" "INPUT_UDP_PORT g2 = INPUT_UDP_PORT g"
    using blk_use_udp_telemetry_input_side [of io kv "blk_telemetry_addr io kv (g, w)"]
          blk_telemetry_addr_input_side [of io kv "(g, w)"] p2
    by (simp_all add: s2_def)
  have t1: "blk_telemetry_addr io ?kv' (g, w) = blk_telemetry_addr io kv (g, w)"
    by (rule blk_telemetry_addr_cong) (simp_all add: map_of_without_keys)
  have t2: "blk_use_udp_telemetry io ?kv' s = blk_use_udp_telemetry io kv s" for s
    by (rule blk_use_udp_telemetry_cong) (simp add: map_of_without_keys)
  have s2': "blk_use_udp_telemetry io ?kv' (blk_telemetry_addr io ?kv' (g, w)) = s2"
    unfolding s2_def t1 t2 by (rule refl)
  have b3: "blk_input_addr io kv s2 = (g2, file_log ?m w2)"
    unfolding p2 using assms side by (intro blk_input_addr_malformed) simp_all
  have b3': "blk_input_addr io ?kv' s2 = s2"
    by (simp add: blk_input_addr_absent has_key_def map_of_without_keys)
  have h: "handle_input_data io (JObj kv) path (g, w) =
             blk_reset io kv path (blk_use_input_udp io kv (g2, file_log ?m w2))"
    using b3 by (simp add: handle_input_data_def s2_def)
  have h': "handle_input_data io (JObj ?kv') path (g, w) =
              blk_reset io ?kv' path (blk_use_input_udp io ?kv' (g2, w2))"
    using b3' s2' p2 by (simp add: handle_input_data_def)
  have e: "same_effects (blk_reset io kv path (blk_use_input_udp io kv (g2, file_log ?m w2)))
             (blk_reset io ?kv' path (blk_use_input_udp io ?kv' (g2, w2)))"
    by (intro same_effects_blk_reset same_effects_blk_use_input_udp blk_telemetry_addr_log_only)
       (simp_all add: map_of_without_keys)
  have l: "?m \<in> set (w_log (snd (blk_reset io kv path
                   (blk_use_input_udp io kv (g2, file_log ?m w2)))))"
    using log_mono_blk_reset [of "blk_use_input_udp io kv (g2, file_log ?m w2)" io kv path]
          log_mono_blk_use_input_udp [of "(g2, file_log ?m w2)" io kv]
    by (auto simp: file_log_def)
  have c: "INPUT_UDP_HOST (fst (blk_reset io kv path
                   (blk_use_input_udp io kv (g2, file_log ?m w2)))) = INPUT_UDP_HOST g \<and>
           INPUT_UDP_PORT (fst (blk_reset io kv path
                   (blk_use_input_udp io kv (g2, file_log ?m w2)))) = INPUT_UDP_PORT g"
    using blk_use_input_udp_config [of io kv "(g2, file_log ?m w2)"] side
    by (simp add: blk_reset_globals)
  show ?thesis
    using l c e unfolding h h' by simp
qed

text \<open>
  C6, as amended. A command whose \<^verbatim>\<open>telemetry_udp_port\<close> (first part) or
  \<^verbatim>\<open>input_udp_port\<close> (second part) does not convert to an integer: the failure is
  logged, and the host/port pair of that endpoint is skipped as a whole, so its host and
  port stay as they were even when the command carries a well-formed host for it. The
  blocks of the other keys run as usual: the processor ends with the globals, sockets
  and host commands it ends with on the same command without the two keys, and the
  files are what the reset block makes of them: with \<^verbatim>\<open>reset\<close> true, a path and a write
  that goes through, the command file holds the whole command with \<^verbatim>\<open>reset\<close> false
  (third part); with \<^verbatim>\<open>reset\<close> not true no file is touched (fourth part).
\<close>

theorem malformed_port_skips_pair:
  "((has_key kv ''telemetry_udp_host'' \<or> has_key kv ''telemetry_udp_port'') \<and>
    py_int (io_int_str io) (get_or kv ''telemetry_udp_port'' (JInt (TELEMETRY_UDP_PORT g))) = None \<longrightarrow>
      ''Invalid telemetry_udp_port in input: %s'' \<in>
        set (w_log (snd (handle_input_data io (JObj kv) path (g, w)))) \<and>
      TELEMETRY_UDP_HOST (fst (handle_input_data io (JObj kv) path (g, w))) =
        TELEMETRY_UDP_HOST g \<and>
      TELEMETRY_UDP_PORT (fst (handle_input_data io (JObj kv) path (g, w))) =
        TELEMETRY_UDP_PORT g \<and>
      same_effects (handle_input_data io (JObj kv) path (g, w))
        (handle_input_data io
           (JObj (without_keys [''telemetry_udp_host'', ''telemetry_udp_port''] kv)) path (g, w))) \<and>
   ((has_key kv ''input_udp_host'' \<or> has_key kv ''input_udp_port'') \<and>
    py_int (io_int_str io) (get_or kv ''input_udp_port'' (JInt (INPUT_UDP_PORT g))) = None \<longrightarrow>
      ''Invalid input_udp_port in input: %s'' \<in>
        set (w_log (snd (handle_input_data io (JObj kv) path (g, w)))) \<and>
      INPUT_UDP_HOST (fst (handle_input_data io (JObj kv) path (g, w))) = INPUT_UDP_HOST g \<and>
      INPUT_UDP_PORT (fst (handle_input_data io (JObj kv) path (g, w))) = INPUT_UDP_PORT g \<and>
      same_effects (handle_input_data io (JObj kv) path (g, w))
        (handle_input_data io
           (JObj (without_keys [''input_udp_host'', ''input_udp_port''] kv)) path (g, w))) \<and>
   (map_of kv ''reset'' = Some (JBool True) \<and> path = Some p \<and> p \<noteq> [] \<and>
    io_write io = WriteOk \<and> (io_replace io \<or> io_rename io) \<longrightarrow>
      map_of (w_files (snd (handle_input_data io (JObj kv) path (g, w)))) p =
        Some (Doc (JObj (AList.update ''reset'' (JBool False) kv)))) \<and>
   (map_of kv ''reset'' \<noteq> Some (JBool True) \<longrightarrow>
      w_files (snd (handle_input_data io (JObj kv) path (g, w))) = w_files w)"
proof (intro conjI)
  show "(has_key kv ''telemetry_udp_host'' \<or> has_key kv ''telemetry_udp_port'') \<and>
    py_int (io_int_str io) (get_or kv ''telemetry_udp_port'' (JInt (TELEMETRY_UDP_PORT g))) = None \<longrightarrow>
      ''Invalid telemetry_udp_port in input: %s'' \<in>
        set (w_log (snd (handle_input_data io (JObj kv) path (g, w)))) \<and>
      TELEMETRY_UDP_HOST (fst (handle_input_data io (JObj kv) path (g, w))) =
        TELEMETRY_UDP_HOST g \<and>
      TELEMETRY_UDP_PORT (fst (handle_input_data io (JObj kv) path (g, w))) =
        TELEMETRY_UDP_PORT g \<and>
      same_effects (handle_input_data io (JObj kv) path (g, w))
        (handle_input_data io
           (JObj (without_keys [''telemetry_udp_host'', ''telemetry_udp_port''] kv)) path (g, w))"
  proof
    assume a: "(has_key kv ''telemetry_udp_host'' \<or> has_key kv ''telemetry_udp_port'') \<and>
    py_int (io_int_str io) (get_or kv ''telemetry_udp_port'' (JInt (TELEMETRY_UDP_PORT g))) = None"
    show "''Invalid telemetry_udp_port in input: %s'' \<in>
        set (w_log (snd (handle_input_data io (JObj kv) path (g, w)))) \<and>
      TELEMETRY_UDP_HOST (fst (handle_input_data io (JObj kv) path (g, w))) =
        TELEMETRY_UDP_HOST g \<and>
      TELEMETRY_UDP_PORT (fst (handle_input_data io (JObj kv) path (g, w))) =
        TELEMETRY_UDP_PORT g \<and>
      same_effects (handle_input_data io (JObj kv) path (g, w))
        (handle_input_data io
           (JObj (without_keys [''telemetry_udp_host'', ''telemetry_udp_port''] kv)) path (g, w))"
      by (rule malformed_telemetry_port [OF conjunct1 [OF a] conjunct2 [OF a], THEN conjunct2])
  qed
  show "(has_key kv ''input_udp_host'' \<or> has_key kv ''input_udp_port'') \<and>
    py_int (io_int_str io) (get_or kv ''input_udp_port'' (JInt (INPUT_UDP_PORT g))) = None \<longrightarrow>
      ''Invalid input_udp_port in input: %s'' \<in>
        set (w_log (snd (handle_input_data io (JObj kv) path (g, w)))) \<and>
      INPUT_UDP_HOST (fst (handle_input_data io (JObj kv) path (g, w))) = INPUT_UDP_HOST g \<and>
      INPUT_UDP_PORT (fst (handle_input_data io (JObj kv) path (g, w))) = INPUT_UDP_PORT g \<and>
      same_effects (handle_input_data io (JObj kv) path (g, w))
        (handle_input_data io
           (JObj (without_keys [''input_udp_host'', ''input_udp_port''] kv)) path (g, w))"
  proof
    assume a: "(has_key kv ''input_udp_host'' \<or> has_key kv ''input_udp_port'') \<and>
    py_int (io_int_str io) (get_or kv ''input_udp_port'' (JInt (INPUT_UDP_PORT g))) = None"
    show "''Invalid input_udp_port in input: %s'' \<in>
        set (w_log (snd (handle_input_data io (JObj kv) path (g, w)))) \<and>
      INPUT_UDP_HOST (fst (handle_input_data io (JObj kv) path (g, w))) = INPUT_UDP_HOST g \<and>
      INPUT_UDP_PORT (fst (handle_input_data io (JObj kv) path (g, w))) = INPUT_UDP_PORT g \<and>
      same_effects (handle_input_data io (JObj kv) path (g, w))
        (handle_input_data io
           (JObj (without_keys [''input_udp_host'', ''input_udp_port''] kv)) path (g, w))"
      by (rule malformed_input_port [OF conjunct1 [OF a] conjunct2 [OF a]])
  qed
  show "map_of kv ''reset'' = Some (JBool True) \<and> path = Some p \<and> p \<noteq> [] \<and>
    io_write io = WriteOk \<and> (io_replace io \<or> io_rename io) \<longrightarrow>
      map_of (w_files (snd (handle_input_data io (JObj kv) path (g, w)))) p =
        Some (Doc (JObj (AList.update ''reset'' (JBool False) kv)))"
    using reset_rewrites_file(1) [of kv p io "(g, w)"] by simp
  show "map_of kv ''reset'' \<noteq> Some (JBool True) \<longrightarrow>
      w_files (snd (handle_input_data io (JObj kv) path (g, w))) = w_files w"
    using before_reset_untouched [of "(g, w)" io kv]
    by (simp add: handle_input_data_JObj blk_reset_absent untouched_def)
qed

text \<open>
  The claim as written fails: a well-formed \<^verbatim>\<open>telemetry_udp_host\<close>, which alone
  retargets the host, is not acted on when it comes with a malformed port.
\<close>

theorem malformed_port_skips_pair_counterexample:
  "TELEMETRY_UDP_HOST (fst (handle_input_data ok_io
      (JObj [(''telemetry_udp_host'', JStr ''10.0.0.5''), (''telemetry_udp_port'', JStr ''abc'')])
      None (module_globals, empty_world))) = JStr ''127.0.0.1'' \<and>
   TELEMETRY_UDP_HOST (fst (handle_input_data ok_io
      (JObj [(''telemetry_udp_host'', JStr ''10.0.0.5'')])
      None (module_globals, empty_world))) = JStr ''10.0.0.5''"
proof -
  have p: "io_int_str ok_io ''abc'' = None"
    by (simp add: ok_io_def int_of_str_def strip_def is_space_def parse_digits_def is_digit_def)
  have a: "blk_telemetry_addr ok_io
             [(''telemetry_udp_host'', JStr ''10.0.0.5''), (''telemetry_udp_port'', JStr ''abc'')]
             (module_globals, empty_world) =
           (module_globals, file_log ''Invalid telemetry_udp_port in input: %s'' empty_world)"
    by (simp add: blk_telemetry_addr_def has_key_def get_or_def p Let_def)
  have b: "blk_telemetry_addr ok_io [(''telemetry_udp_host'', JStr ''10.0.0.5'')]
             (module_globals, empty_world) =
           (module_globals\<lparr>TELEMETRY_UDP_HOST := JStr ''10.0.0.5'', TELEMETRY_UDP_PORT := 9876,
              telemetry_addr := (JStr ''10.0.0.5'', 9876)\<rparr>,
            file_log ''Telemetry UDP target updated to %s:%d via input'' empty_world)"
    by (simp add: blk_telemetry_addr_def has_key_def get_or_def module_globals_def Let_def)
  have r: "TELEMETRY_UDP_HOST (fst (handle_input_data io (JObj kv) path s)) =
             TELEMETRY_UDP_HOST (fst (blk_telemetry_addr io kv s))" for io kv path s
    using telemetry_config_after [of io kv path "blk_telemetry_addr io kv s"]
    by (simp add: handle_input_data_def after_telemetry_addr_def)
  show ?thesis
    unfolding r a b by (simp add: module_globals_def)
qed

theorem malformed_port_skips_pair_witness:
  "''Invalid telemetry_udp_port in input: %s'' \<in> set (w_log (snd (handle_input_data ok_io
       (JObj malformed_both) (Some ''input.json'') (module_globals, empty_world)))) \<and>
   TELEMETRY_UDP_HOST (fst (handle_input_data ok_io
       (JObj malformed_both) (Some ''input.json'') (module_globals, empty_world))) = JStr ''127.0.0.1'' \<and>
   ''Invalid input_udp_port in input: %s'' \<in> set (w_log (snd (handle_input_data ok_io
       (JObj malformed_both) (Some ''input.json'') (module_globals, empty_world)))) \<and>
   INPUT_UDP_PORT (fst (handle_input_data ok_io
       (JObj malformed_both) (Some ''input.json'') (module_globals, empty_world))) = 9877 \<and>
   map_of (w_files (snd (handle_input_data ok_io
       (JObj malformed_both) (Some ''input.json'') (module_globals, empty_world)))) ''input.json'' =
     Some (Doc (JObj [(''telemetry_udp_host'', JStr ''10.0.0.5''),
                      (''telemetry_udp_port'', JStr ''abc''),
                      (''input_udp_port'', JStr ''abc''), (''reset'', JBool False)]))"
proof -
  have p: "io_int_str ok_io ''abc'' = None"
    by (simp add: ok_io_def int_of_str_def strip_def is_space_def parse_digits_def is_digit_def)
  have t: "(has_key malformed_both ''telemetry_udp_host'' \<or>
            has_key malformed_both ''telemetry_udp_port'') \<and>
           py_int (io_int_str ok_io) (get_or malformed_both ''telemetry_udp_port''
              (JInt (TELEMETRY_UDP_PORT module_globals))) = None"
    by (simp add: malformed_both_def has_key_def get_or_def p)
  have i: "(has_key malformed_both ''input_udp_host'' \<or>
            has_key malformed_both ''input_udp_port'') \<and>
           py_int (io_int_str ok_io) (get_or malformed_both ''input_udp_port''
              (JInt (INPUT_UDP_PORT module_globals))) = None"
    by (simp add: malformed_both_def has_key_def get_or_def p)
  have r: "map_of malformed_both ''reset'' = Some (JBool True) \<and>
           Some ''input.json'' = Some ''input.json'' \<and> ''input.json'' \<noteq> [] \<and>
           io_write ok_io = WriteOk \<and> (io_replace ok_io \<or> io_rename ok_io)"
    by (simp add: malformed_both_def ok_io_def)
  have u: "AList.update ''reset'' (JBool False) malformed_both =
           [(''telemetry_udp_host'', JStr ''10.0.0.5''),
            (''telemetry_udp_port'', JStr ''abc''),
            (''input_udp_port'', JStr ''abc''), (''reset'', JBool False)]"
    by (simp add: malformed_both_def)
  have g: "TELEMETRY_UDP_HOST module_globals = JStr ''127.0.0.1''"
          "INPUT_UDP_PORT module_globals = 9877"
    by (simp_all add: module_globals_def)
  note m = malformed_port_skips_pair
    [where io = ok_io and kv = malformed_both and path = "Some ''input.json''"
       and p = "''input.json''" and g = module_globals and w = empty_world]
  note mt = m [THEN conjunct1, THEN mp, OF t]
  note mi = m [THEN conjunct2, THEN conjunct1, THEN mp, OF i]
  note mr = m [THEN conjunct2, THEN conjunct2, THEN conjunct1, THEN mp, OF r]
  show ?thesis
    using mt [THEN conjunct1] mt [THEN conjunct2, THEN conjunct1]
          mi [THEN conjunct1] mi [THEN conjunct2, THEN conjunct2, THEN conjunct1] mr
    by (simp only: g u simp_thms)
qed

lemma retarget_only:
  assumes "has_key kv ''telemetry_udp_host'' \<or> has_key kv ''telemetry_udp_port''"
      and "py_int (io_int_str io) (get_or kv ''telemetry_udp_port'' (JInt (TELEMETRY_UDP_PORT g))) = Some p"
      and "\<not> has_key kv ''use_udp_telemetry''" and "\<not> has_key kv ''input_udp_host''"
      and "\<not> has_key kv ''input_udp_port''" and "\<not> has_key kv ''use_input_udp''"
      and "map_of kv ''reset'' \<noteq> Some (JBool True)"
  shows "handle_input_data io (JObj kv) path (g, w) =
           (g\<lparr>TELEMETRY_UDP_HOST := get_or kv ''telemetry_udp_host'' (TELEMETRY_UDP_HOST g),
              TELEMETRY_UDP_PORT := p,
              telemetry_addr := (get_or kv ''telemetry_udp_host'' (TELEMETRY_UDP_HOST g), p)\<rparr>,
            file_log ''Telemetry UDP target updated to %s:%d via input'' w)"
proof -
  have "blk_telemetry_addr io kv (g, w) =
           (g\<lparr>TELEMETRY_UDP_HOST := get_or kv ''telemetry_udp_host'' (TELEMETRY_UDP_HOST g),
              TELEMETRY_UDP_PORT := p,
              telemetry_addr := (get_or kv ''telemetry_udp_host'' (TELEMETRY_UDP_HOST g), p)\<rparr>,
            file_log ''Telemetry UDP target updated to %s:%d via input'' w)"
    using assms(1,2) by (auto simp: blk_telemetry_addr_def Let_def)
  then show ?thesis
    using assms(3-7)
    by (simp add: handle_input_data_def blk_use_udp_telemetry_absent blk_input_addr_absent
        blk_use_input_udp_absent blk_reset_absent)
qed

subsection \<open>Rebinding closes the old socket\<close>


lemma next_file_log: "w_next (file_log m w) = w_next w"
  by (simp add: file_log_def)

lemma next_sock_close: "w_next (sock_close h w) = w_next w"
  by (simp add: sock_close_def)

lemma next_close_socket: "w_next (close_socket sk w) = w_next w"
  by (simp add: close_socket_def next_file_log next_sock_close split: option.splits)

lemma next_create:
  "w_next (snd (create_udp_socket ok b host p blk w)) =
     (if ok \<and> (if b then addr_ok host p else True) then Suc (w_next w) else w_next w)"
  by (simp add: create_udp_socket_def file_log_def)

lemma below_mono: "below ho n \<Longrightarrow> n \<le> m \<Longrightarrow> below ho m"
  by (cases ho) simp_all

lemma handle_issued_blk_telemetry_addr:
  "handle_issued s \<Longrightarrow> handle_issued (blk_telemetry_addr io kv s)"
  by (cases s)
     (simp add: handle_issued_def blk_telemetry_addr_def Let_def next_file_log split: option.splits)

lemma handle_issued_blk_use_udp_telemetry:
  "handle_issued s \<Longrightarrow> handle_issued (blk_use_udp_telemetry io kv s)"
  by (cases s)
     (auto simp: handle_issued_def blk_use_udp_telemetry_def Let_def case_prod_unfold
        next_file_log next_close_socket next_create elim: below_mono)

lemma handle_issued_blk_input_addr:
  "handle_issued s \<Longrightarrow> handle_issued (blk_input_addr io kv s)"
  by (cases s)
     (auto simp: handle_issued_def blk_input_addr_def Let_def case_prod_unfold
        next_file_log next_sock_close next_create fst_create split: option.splits)

lemma handle_issued_blk_use_input_udp:
  "handle_issued s \<Longrightarrow> handle_issued (blk_use_input_udp io kv s)"
  by (cases s)
     (auto simp: handle_issued_def blk_use_input_udp_def Let_def case_prod_unfold
        next_file_log next_close_socket next_create fst_create)

lemma next_blk_reset: "w_next (snd (blk_reset io kv path s)) = w_next (snd s)"
  by (cases s; cases path)
     (simp_all add: blk_reset_def case_prod_unfold Let_def file_log_def atomic_write_effects
        call_sendcmd_effects)

lemma handle_issued_blk_reset: "handle_issued s \<Longrightarrow> handle_issued (blk_reset io kv path s)"
  by (simp add: handle_issued_def next_blk_reset blk_reset_globals)

lemma handle_issued_handle_input_data:
  "handle_issued s \<Longrightarrow> handle_issued (handle_input_data io cmd path s)"
  by (cases cmd)
     (simp_all add: handle_input_data_def handle_issued_blk_reset handle_issued_blk_use_input_udp
        handle_issued_blk_input_addr handle_issued_blk_use_udp_telemetry
        handle_issued_blk_telemetry_addr)

lemma handle_issued_process_all: "handle_issued s \<Longrightarrow> handle_issued (process_all cs s)"
proof (induction cs arbitrary: s)
  case Nil
  then show ?case by simp
next
  case (Cons c cs)
  obtain io cmd path where c: "c = (io, cmd, path)"
    by (cases c)
  have "handle_issued (process_all cs (handle_input_data io cmd path s))"
    using Cons.prems by (intro Cons.IH handle_issued_handle_input_data)
  then show ?case
    by (simp add: c)
qed

lemma handle_issued_acMain: "handle_issued (acMain tele_ok in_ok (g, w))"
  by (simp add: handle_issued_def acMain_def Let_def next_file_log next_create fst_create)

lemma blk_input_addr_gone:
  assumes "sock_inv s" and "handle_issued s" and "input_sock (fst s) = Some h"
      and "has_key kv ''input_udp_host'' \<or> has_key kv ''input_udp_port''"
      and "py_int (io_int_str io) (get_or kv ''input_udp_port'' (JInt (INPUT_UDP_PORT (fst s)))) \<noteq> None"
  shows "gone h (blk_input_addr io kv s)"
proof (cases s)
  case (Pair g w)
  have closed: "filter (\<lambda>x. x \<noteq> h) (live_command_in w) = []"
    using assms(1,3) Pair by (simp add: sock_inv_def holds_only_closed)
  have lt: "h < w_next w"
    using assms(2,3) Pair by (simp add: handle_issued_def)
  show ?thesis
    using assms(3,4,5) Pair closed lt
    by (auto simp: gone_def blk_input_addr_def Let_def case_prod_unfold live_file_log
        live_sock_close live_create next_file_log next_sock_close next_create)
qed

lemma gone_blk_use_input_udp: "gone h s \<Longrightarrow> gone h (blk_use_input_udp io kv s)"
  by (cases s)
     (auto simp: gone_def blk_use_input_udp_def Let_def case_prod_unfold live_file_log
        live_close_socket live_create next_file_log next_close_socket next_create
        split: option.splits)

lemma gone_blk_reset: "gone h s \<Longrightarrow> gone h (blk_reset io kv path s)"
  by (simp add: gone_def live_blk_reset next_blk_reset)

lemma rebind_closes_old:
  assumes "sock_inv s" and "handle_issued s" and "input_sock (fst s) = Some h"
      and "has_key kv ''input_udp_host'' \<or> has_key kv ''input_udp_port''"
      and "py_int (io_int_str io) (get_or kv ''input_udp_port'' (JInt (INPUT_UDP_PORT (fst s)))) \<noteq> None"
  shows "h \<notin> set (live_command_in (snd (handle_input_data io (JObj kv) path s)))"
proof -
  define s2 where "s2 = blk_use_udp_telemetry io kv (blk_telemetry_addr io kv s)"
  have inv: "sock_inv s2" and iss: "handle_issued s2"
    using assms(1,2)
    by (simp_all add: s2_def sock_inv_blk_use_udp_telemetry sock_inv_blk_telemetry_addr
        handle_issued_blk_use_udp_telemetry handle_issued_blk_telemetry_addr)
  have side: "input_sock (fst s2) = Some h" "INPUT_UDP_PORT (fst s2) = INPUT_UDP_PORT (fst s)"
    using blk_use_udp_telemetry_input_side [of io kv "blk_telemetry_addr io kv s"]
          blk_telemetry_addr_input_side [of io kv s] assms(3)
    by (simp_all add: s2_def)
  have "gone h (blk_input_addr io kv s2)"
    using inv iss side assms(4,5) by (intro blk_input_addr_gone) simp_all
  then have "gone h (blk_reset io kv path (blk_use_input_udp io kv (blk_input_addr io kv s2)))"
    by (intro gone_blk_reset gone_blk_use_input_udp)
  then show ?thesis
    by (simp add: gone_def handle_input_data_def s2_def)
qed

text \<open>
  C4. From a state in which the only command-in socket that may be open is the one
  \<^verbatim>\<open>input_sock\<close> holds (as after \<^verbatim>\<open>acMain\<close>), every sequence of commands, whatever
  the outcome of each socket creation and bind, ends in such a state again: at most one
  command-in socket is open. And a rebind closes what was open: after any such sequence,
  a command with \<^verbatim>\<open>input_udp_host\<close> or \<^verbatim>\<open>input_udp_port\<close> whose port converts leaves
  the handle that \<^verbatim>\<open>input_sock\<close> held out of the open command-in sockets, whether or
  not the new socket could be created and bound.
\<close>

theorem at_most_one_command_in_handle:
  assumes "sock_inv s" and "handle_issued s"
  shows "sock_inv (process_all cs s) \<and> handle_issued (process_all cs s) \<and>
         length (live_command_in (snd (process_all cs s))) \<le> 1 \<and>
         (\<forall>h. input_sock (fst (process_all cs s)) = Some h \<and>
              (has_key kv ''input_udp_host'' \<or> has_key kv ''input_udp_port'') \<and>
              py_int (io_int_str io)
                (get_or kv ''input_udp_port''
                   (JInt (INPUT_UDP_PORT (fst (process_all cs s))))) \<noteq> None \<longrightarrow>
              h \<notin> set (live_command_in
                          (snd (handle_input_data io (JObj kv) path (process_all cs s)))))"
proof -
  have i: "sock_inv (process_all cs s)"
    using assms(1) by (rule sock_inv_process_all)
  have f: "handle_issued (process_all cs s)"
    using assms(2) by (rule handle_issued_process_all)
  show ?thesis
    using i f sock_inv_at_most_one [OF i] rebind_closes_old [OF i f] by blast
qed

lemma rebind_twice_eval:
  "input_sock (fst (process_all rebind_twice started)) = Some 3 \<and>
   INPUT_UDP_PORT (fst (process_all rebind_twice started)) = 9000 \<and>
   live_command_in (snd (process_all rebind_twice started)) = [3]"
  by (simp add: rebind_twice_def started_eval handle_input_data_def blk_telemetry_addr_def
      blk_use_udp_telemetry_def blk_input_addr_def blk_use_input_udp_def blk_reset_def
      has_key_def get_or_def ok_io_def module_globals_def empty_world_def
      create_udp_socket_def sock_close_def close_socket_def file_log_def
      live_command_in_def Let_def)

theorem at_most_one_command_in_handle_witness:
  "sock_inv (process_all rebind_twice started) \<and>
   length (live_command_in (snd (process_all rebind_twice started))) \<le> 1 \<and>
   3 \<notin> set (live_command_in
             (snd (handle_input_data (ok_io\<lparr>io_rebind := False\<rparr>)
                (JObj [(''input_udp_port'', JInt 9001)]) None
                (process_all rebind_twice started))))"
proof -
  have "live_command_in empty_world = []"
    by (simp add: live_command_in_def empty_world_def)
  then have i: "sock_inv started"
    unfolding started_def by (rule sock_inv_acMain)
  have f: "handle_issued started"
    unfolding started_def by (rule handle_issued_acMain)
  note m = at_most_one_command_in_handle [OF i f, where cs = rebind_twice
      and kv = "[(''input_udp_port'', JInt 9001)]" and io = "ok_io\<lparr>io_rebind := False\<rparr>"
      and path = None]
  have h: "input_sock (fst (process_all rebind_twice started)) = Some 3"
    using rebind_twice_eval by simp
  have k: "has_key [(''input_udp_port'', JInt 9001)] ''input_udp_host'' \<or>
           has_key [(''input_udp_port'', JInt 9001)] ''input_udp_port''"
    by (simp add: has_key_def)
  have q: "py_int (io_int_str (ok_io\<lparr>io_rebind := False\<rparr>))
             (get_or [(''input_udp_port'', JInt 9001)] ''input_udp_port''
                (JInt (INPUT_UDP_PORT (fst (process_all rebind_twice started))))) \<noteq> None"
    by (simp add: get_or_def)
  show ?thesis
    using m h k q by blast
qed

section \<open>Properties of the publisher\<close>


lemma send_telemetry_out:
  assumes "udp_goes_out t g" and "telemetry_sock g = Some h"
  shows "send_telemetry t doc (g, w) = (True, w\<lparr>w_sent := w_sent w @ [(h, doc, telemetry_addr g)]\<rparr>)"
  using assms by (simp add: send_telemetry_def udp_goes_out_def)

lemma send_telemetry_not_out:
  assumes "\<not> udp_goes_out t g"
  shows "fst (send_telemetry t doc (g, w)) = False"
    and "w_files (snd (send_telemetry t doc (g, w))) = w_files w"
    and "w_sent (snd (send_telemetry t doc (g, w))) = w_sent w"
  using assms
  by (auto simp: send_telemetry_def udp_goes_out_def file_log_def split: option.splits)

lemma publish_tick_sent:
  assumes "labels_ok t P" and "udp_goes_out t g" and "telemetry_sock g = Some h"
  shows "publish_tick t (Some P) (g, w) =
           (Returned, g,
            w\<lparr>w_log := w_log w @ payload_log P,
              w_sent := w_sent w @ [(h, payload P (t_now t), telemetry_addr g)]\<rparr>)"
  using assms by (simp add: publish_tick_def Let_def send_telemetry_out)

lemma publish_tick_written:
  assumes "labels_ok t P" and "\<not> udp_goes_out t g"
      and "t_write t = WriteOk" and "t_replace t \<or> t_rename t"
  shows "fst (publish_tick t (Some P) (g, w)) = Returned"
    and "map_of (w_files (snd (snd (publish_tick t (Some P) (g, w))))) (telemetry_path t) =
           Some (Doc (payload P (t_now t)))"
    and "map_of (w_files (snd (snd (publish_tick t (Some P) (g, w)))))
           (telemetry_path t @ ''.tmp'') = None"
    and "w_sent (snd (snd (publish_tick t (Some P) (g, w)))) = w_sent w"
  using assms send_telemetry_not_out [OF assms(2)]
  by (simp_all add: publish_tick_def Let_def atomic_write_ok moved_lookup)

lemma handlers_return:
  assumes "\<forall>m. \<not> t_ac_log_raises t m"
  shows "fst (on_label_error t s) = Returned" and "fst (on_payload_error t s) = Returned"
    and "fst (on_write_error t s) = Returned"
  using assms by (simp_all add: on_label_error_def on_payload_error_def on_write_error_def)

lemma publish_tick_returns:
  assumes "\<forall>m. \<not> t_ac_log_raises t m"
  shows "fst (publish_tick t api s) = Returned"
  using handlers_return [OF assms]
  by (cases api) (simp_all add: publish_tick_def Let_def)

lemma check_input_file_one_datagram:
  assumes "input_path t w = None" and "input_sock g = Some hi"
      and "t_packets t = [(Some cmd, io)]"
      and "input_sock (fst (handle_input_data io cmd None (g, w))) = Some hi'"
  shows "check_input_file t (g, w) = handle_input_data io cmd None (g, w)"
  using assms by (simp add: check_input_file_def read_input_file_def Let_def)

text \<open>
  C7. A command with \<^verbatim>\<open>telemetry_udp_host\<close> or \<^verbatim>\<open>telemetry_udp_port\<close> whose port
  converts to an integer (no other recognised key acting) changes the configured
  telemetry host, port and address and adds a log entry; the telemetry handle, the open
  sockets and everything else stay as they are. When the command is the datagram polled
  at the start of a tick, the snapshot of that tick leaves through the same socket,
  addressed to the new host and port.
\<close>

theorem retarget_takes_effect_next_tick:
  assumes "has_key kv ''telemetry_udp_host'' \<or> has_key kv ''telemetry_udp_port''"
      and "py_int (io_int_str io) (get_or kv ''telemetry_udp_port'' (JInt (TELEMETRY_UDP_PORT g))) = Some p"
      and "host = get_or kv ''telemetry_udp_host'' (TELEMETRY_UDP_HOST g)"
      and "\<not> has_key kv ''use_udp_telemetry''" and "\<not> has_key kv ''input_udp_host''"
      and "\<not> has_key kv ''input_udp_port''" and "\<not> has_key kv ''use_input_udp''"
      and "map_of kv ''reset'' \<noteq> Some (JBool True)"
      and "input_path t w = None" and "input_sock g = Some hi"
      and "t_packets t = [(Some (JObj kv), io)]"
      and "telemetry_sock g = Some h" and "labels_ok t P" and "t_send_ok t" and "addr_ok host p"
  shows "handle_input_data io (JObj kv) None (g, w) =
           (g\<lparr>TELEMETRY_UDP_HOST := host, TELEMETRY_UDP_PORT := p, telemetry_addr := (host, p)\<rparr>,
            file_log ''Telemetry UDP target updated to %s:%d via input'' w) \<and>
         acUpdate t (Some P) (g, w) =
           (Returned,
            g\<lparr>TELEMETRY_UDP_HOST := host, TELEMETRY_UDP_PORT := p, telemetry_addr := (host, p)\<rparr>,
            w\<lparr>w_log := w_log w @ [''Telemetry UDP target updated to %s:%d via input''] @
                        payload_log P,
              w_sent := w_sent w @ [(h, payload P (t_now t), (host, p))]\<rparr>)"
proof -
  let ?g' = "g\<lparr>TELEMETRY_UDP_HOST := host, TELEMETRY_UDP_PORT := p, telemetry_addr := (host, p)\<rparr>"
  let ?w' = "file_log ''Telemetry UDP target updated to %s:%d via input'' w"
  have hd: "handle_input_data io (JObj kv) None (g, w) = (?g', ?w')"
    using retarget_only [where path = None and w = w, OF assms(1,2,4-8)] assms(3) by simp
  have "input_sock (fst (handle_input_data io (JObj kv) None (g, w))) = Some hi"
    using hd assms(10) by simp
  then have ci: "check_input_file t (g, w) = (?g', ?w')"
    using check_input_file_one_datagram [OF assms(9,10,11)] hd by simp
  have out: "udp_goes_out t ?g'"
    using assms(12,14,15) by (simp add: udp_goes_out_def)
  have sk: "telemetry_sock ?g' = Some h"
    using assms(12) by simp
  have "acUpdate t (Some P) (g, w) =
          (Returned, ?g',
           ?w'\<lparr>w_log := w_log ?w' @ payload_log P,
              w_sent := w_sent ?w' @ [(h, payload P (t_now t), telemetry_addr ?g')]\<rparr>)"
    unfolding acUpdate_def ci by (rule publish_tick_sent [OF assms(13) out sk])
  then show ?thesis
    using hd by (simp add: file_log_def)
qed

text \<open>
  C1, as amended. On a tick whose data modules are loaded and whose label refresh gets
  through, when the telemetry socket is null or the send fails: the snapshot is written
  to the temporary sibling and moved onto the telemetry file (replace, rename as the
  fallback), so with the write and one of the moves succeeding the file holds the
  snapshot, the sibling is gone and the handler returns; and the handler returns in any
  case when the host's \<^verbatim>\<open>ac.log\<close> does not raise.
\<close>

theorem fallback_when_udp_unavailable:
  assumes "labels_ok t P" and "\<not> udp_goes_out t (fst (check_input_file t s))"
  shows "(t_write t = WriteOk \<and> (t_replace t \<or> t_rename t) \<longrightarrow>
            map_of (w_files (snd (snd (acUpdate t (Some P) s)))) (telemetry_path t) =
              Some (Doc (payload P (t_now t))) \<and>
            map_of (w_files (snd (snd (acUpdate t (Some P) s)))) (telemetry_path t @ ''.tmp'') = None \<and>
            w_sent (snd (snd (acUpdate t (Some P) s))) = w_sent (snd (check_input_file t s)) \<and>
            fst (acUpdate t (Some P) s) = Returned) \<and>
         ((\<forall>m. \<not> t_ac_log_raises t m) \<longrightarrow> fst (acUpdate t (Some P) s) = Returned)"
proof -
  obtain g w where s1: "check_input_file t s = (g, w)"
    by (cases "check_input_file t s")
  have n: "\<not> udp_goes_out t g"
    using assms(2) s1 by simp
  show ?thesis
    using publish_tick_written [OF assms(1) n] publish_tick_returns [of t "Some P" "(g, w)"]
    by (simp add: acUpdate_def s1)
qed

lemma quiet_tick_empty:
  "check_input_file quiet_tick (module_globals, empty_world) = (module_globals, empty_world)"
  by (simp add: check_input_file_def read_input_file_def input_path_def exists_file_def
      quiet_tick_def empty_world_def module_globals_def Let_def)

lemma quiet_tick_started: "check_input_file quiet_tick started = started"
  by (simp add: check_input_file_def read_input_file_def input_path_def exists_file_def
      quiet_tick_def started_eval empty_world_def module_globals_def Let_def)

lemma labels_ok_good_api: "labels_ok quiet_tick good_api"
  by (simp add: labels_ok_def label_ok_def label_reads_def direct_call_def good_api_def
      quiet_tick_def)

lemma telemetry_path_quiet: "telemetry_path quiet_tick = ''docs/AC_RL_telemetry.json''"
  by (simp add: telemetry_path_def docs_dir_def path_join_def quiet_tick_def)

text \<open>
  The claim as written fails on a tick whose data modules are not loaded: the handler
  returns at its first guard, and with a null socket nothing is written.
\<close>

theorem fallback_when_udp_unavailable_counterexample:
  "telemetry_sock (fst (check_input_file quiet_tick (module_globals, empty_world))) = None \<and>
   fst (acUpdate quiet_tick None (module_globals, empty_world)) = Returned \<and>
   w_files (snd (snd (acUpdate quiet_tick None (module_globals, empty_world)))) = []"
  by (simp add: acUpdate_def quiet_tick_empty publish_tick_def file_log_def)
     (simp add: module_globals_def empty_world_def)

theorem fallback_when_udp_unavailable_witness:
  "map_of (w_files (snd (snd (acUpdate quiet_tick (Some good_api) (module_globals, empty_world)))))
     ''docs/AC_RL_telemetry.json'' = Some (Doc (payload good_api 5)) \<and>
   fst (acUpdate quiet_tick (Some good_api) (module_globals, empty_world)) = Returned"
proof -
  have n: "\<not> udp_goes_out quiet_tick (fst (check_input_file quiet_tick (module_globals, empty_world)))"
    unfolding quiet_tick_empty by (simp add: udp_goes_out_def module_globals_def)
  have io: "t_write quiet_tick = WriteOk" "t_replace quiet_tick" "t_now quiet_tick = 5"
    by (simp_all add: quiet_tick_def)
  show ?thesis
    using fallback_when_udp_unavailable [OF labels_ok_good_api n]
    by (simp add: io telemetry_path_quiet)
qed

lemma labels_ok_packets: "labels_ok (t\<lparr>t_packets := ps\<rparr>) P = labels_ok t P"
  by (simp add: labels_ok_def label_ok_def)

theorem retarget_takes_effect_next_tick_witness:
  "w_sent (snd (snd (acUpdate retarget_tick (Some good_api) started))) =
     [(0, payload good_api 5, (JStr ''127.0.0.1'', 9999))] \<and>
   telemetry_sock (fst (snd (acUpdate retarget_tick (Some good_api) started))) = Some 0"
proof -
  obtain g w where s: "started = (g, w)"
    by (cases started)
  have g: "g = module_globals\<lparr>telemetry_sock := Some 0, input_sock := Some 1\<rparr>"
    and w: "w_files w = []" "w_sent w = []"
    using s by (auto simp: started_eval empty_world_def)
  have "acUpdate retarget_tick (Some good_api) (g, w) =
          (Returned,
           g\<lparr>TELEMETRY_UDP_HOST := JStr ''127.0.0.1'', TELEMETRY_UDP_PORT := 9999,
              telemetry_addr := (JStr ''127.0.0.1'', 9999)\<rparr>,
           w\<lparr>w_log := w_log w @ [''Telemetry UDP target updated to %s:%d via input''] @
                       payload_log good_api,
             w_sent := w_sent w @ [(0, payload good_api (t_now retarget_tick),
                                    (JStr ''127.0.0.1'', 9999))]\<rparr>)"
    by (rule retarget_takes_effect_next_tick
          [where kv = "[(''telemetry_udp_port'', JInt 9999)]" and hi = 1 and io = ok_io,
           THEN conjunct2])
       (simp_all add: has_key_def get_or_def g w module_globals_def retarget_tick_def
          quiet_tick_def input_path_def exists_file_def labels_ok_def label_ok_def
          label_reads_def direct_call_def good_api_def)
  then show ?thesis
    by (simp add: s w g retarget_tick_def quiet_tick_def)
qed

subsection \<open>The snapshot, field by field\<close>

lemma map_of_sample:
  "distinct (map fst specs) \<Longrightarrow> (k, n, a) \<in> set specs \<Longrightarrow>
   map_of (sample md specs) k = Some (fst (safe_call md n a JNull))"
proof (induction specs)
  case Nil
  then show ?case by simp
next
  case (Cons f specs)
  show ?case
  proof (cases "f = (k, n, a)")
    case True
    then show ?thesis by (simp add: sample_def)
  next
    case False
    then have in_tl: "(k, n, a) \<in> set specs"
      using Cons.prems(2) by simp
    then have "k \<in> fst ` set specs"
      by force
    then have "fst f \<noteq> k"
      using Cons.prems(1) by auto
    then show ?thesis
      using Cons.IH in_tl Cons.prems(1) by (simp add: sample_def)
  qed
qed

lemma safe_call_value: "fst (safe_call (Some m) n a JNull) = field_value m n a"
  by (simp add: safe_call_def field_value_def direct_call_def split: option.splits)

lemma distinct_fields:
  "distinct (map fst session_fields)" "distinct (map fst car_fields)"
  "distinct (map fst inputs_fields)" "distinct (map fst lap_fields)"
  "distinct (map fst stats_fields)" "distinct (map fst (tyre_fields i))"
  by (simp_all add: session_fields_def car_fields_def inputs_fields_def lap_fields_def
      stats_fields_def tyre_fields_def)

lemma snapshot_group:
  assumes "(grp, sel, specs) \<in> set field_groups" and "(k, n, a) \<in> set specs"
  shows "snapshot_field (payload P now) grp k = Some (field_value (sel P) n a)"
proof -
  have d: "distinct (map fst specs)"
    using assms(1) distinct_fields by (auto simp: field_groups_def)
  have "snapshot_field (payload P now) grp k = map_of (sample (Some (sel P)) specs) k"
    using assms(1)
    by (auto simp: field_groups_def snapshot_field_def obj_get_def payload_def)
  then show ?thesis
    using map_of_sample [OF d assms(2)] by (simp add: safe_call_value)
qed

lemma snapshot_tyre_field:
  assumes "i < 4" and "(k, n, a) \<in> set (tyre_fields i)"
  shows "snapshot_tyre (payload P now) i k = Some (field_value (tyre_info P) n a)"
proof -
  have ne: "k \<noteq> ''index''"
    using assms(2) by (auto simp: tyre_fields_def)
  have "i = 0 \<or> i = 1 \<or> i = 2 \<or> i = 3"
    using assms(1) by arith
  then have "snapshot_tyre (payload P now) i k =
               map_of (sample (Some (tyre_info P)) (tyre_fields i)) k"
    using ne by (auto simp: snapshot_tyre_def obj_get_def payload_def tyre_sample_def)
  then show ?thesis
    using map_of_sample [OF distinct_fields(6) assms(2)] by (simp add: safe_call_value)
qed

text \<open>
  C3, as amended. On a tick whose data modules are loaded and whose label refresh gets
  through: every field of the snapshot is the value of its own query, null when that
  function is missing or raises, whatever the other queries do; and that snapshot is
  what is delivered, by UDP when the send goes out, else to the telemetry file when the
  write goes through.
\<close>

theorem partial_failure_isolated:
  assumes "labels_ok t P"
  shows "(\<forall>(grp, sel, specs) \<in> set field_groups. \<forall>(k, n, a) \<in> set specs.
            snapshot_field (payload P (t_now t)) grp k = Some (field_value (sel P) n a)) \<and>
         (\<forall>i < 4. \<forall>(k, n, a) \<in> set (tyre_fields i).
            snapshot_tyre (payload P (t_now t)) i k = Some (field_value (tyre_info P) n a)) \<and>
         (\<forall>h. udp_goes_out t (fst (check_input_file t s)) \<and>
               telemetry_sock (fst (check_input_file t s)) = Some h \<longrightarrow>
            w_sent (snd (snd (acUpdate t (Some P) s))) =
              w_sent (snd (check_input_file t s)) @
                [(h, payload P (t_now t), telemetry_addr (fst (check_input_file t s)))]) \<and>
         (\<not> udp_goes_out t (fst (check_input_file t s)) \<and> t_write t = WriteOk \<and>
          (t_replace t \<or> t_rename t) \<longrightarrow>
            map_of (w_files (snd (snd (acUpdate t (Some P) s)))) (telemetry_path t) =
              Some (Doc (payload P (t_now t)))) \<and>
         acUpdate t None s =
           (Returned, fst (check_input_file t s),
            file_log ''tyre_info is None; skipping update'' (snd (check_input_file t s)))"
proof -
  obtain g w where s1: "check_input_file t s = (g, w)"
    by (cases "check_input_file t s")
  have n: "acUpdate t None s = (Returned, g, file_log ''tyre_info is None; skipping update'' w)"
    by (simp add: acUpdate_def publish_tick_def s1)
  have a: "\<forall>(grp, sel, specs) \<in> set field_groups. \<forall>(k, n, a) \<in> set specs.
            snapshot_field (payload P (t_now t)) grp k = Some (field_value (sel P) n a)"
    using snapshot_group by blast
  have b: "\<forall>i < 4. \<forall>(k, n, a) \<in> set (tyre_fields i).
            snapshot_tyre (payload P (t_now t)) i k = Some (field_value (tyre_info P) n a)"
    using snapshot_tyre_field by blast
  have c: "udp_goes_out t g \<and> telemetry_sock g = Some h \<longrightarrow>
            w_sent (snd (snd (acUpdate t (Some P) s))) =
              w_sent w @ [(h, payload P (t_now t), telemetry_addr g)]" for h
    using publish_tick_sent [OF assms, of g h w] by (auto simp: acUpdate_def s1)
  have d: "\<not> udp_goes_out t g \<and> t_write t = WriteOk \<and> (t_replace t \<or> t_rename t) \<longrightarrow>
            map_of (w_files (snd (snd (acUpdate t (Some P) s)))) (telemetry_path t) =
              Some (Doc (payload P (t_now t)))"
    using publish_tick_written(2) [OF assms, of g w] by (auto simp: acUpdate_def s1)
  show ?thesis
    using a b c d n by (simp add: s1)
qed

text \<open>
  The claim as written fails when the providers are unavailable: with the modules not
  loaded, an open socket and every call succeeding, the tick delivers nothing.
\<close>

theorem partial_failure_isolated_counterexample:
  "telemetry_sock (fst (check_input_file quiet_tick started)) = Some 0 \<and>
   w_sent (snd (snd (acUpdate quiet_tick None started))) = [] \<and>
   w_files (snd (snd (acUpdate quiet_tick None started))) = []"
  by (simp add: acUpdate_def quiet_tick_started publish_tick_def file_log_def)
     (simp add: started_eval empty_world_def)

theorem partial_failure_isolated_witness:
  "snapshot_field (payload good_api 5) ''car'' ''fuel'' = Some JNull \<and>
   snapshot_field (payload good_api 5) ''car'' ''rpm'' = Some (JInt 3) \<and>
   snapshot_tyre (payload good_api 5) 2 ''slip_ratio'' = Some JNull \<and>
   snapshot_tyre (payload good_api 5) 2 ''wear'' = Some (JInt 1) \<and>
   w_sent (snd (snd (acUpdate quiet_tick (Some good_api) started))) =
     [(0, payload good_api 5, (JStr ''127.0.0.1'', 9876))]"
proof -
  note m = partial_failure_isolated [OF labels_ok_good_api, of started]
  have now: "t_now quiet_tick = 5"
    by (simp add: quiet_tick_def)
  have f1: "snapshot_field (payload good_api 5) ''car'' ''fuel'' = Some (field_value (car_info good_api) ''get_fuel'' [])"
    using m [THEN conjunct1] unfolding now
    by (simp add: field_groups_def car_fields_def)
  have f2: "snapshot_field (payload good_api 5) ''car'' ''rpm'' = Some (field_value (car_info good_api) ''get_rpm'' [JInt 0])"
    using m [THEN conjunct1] unfolding now
    by (simp add: field_groups_def car_fields_def)
  have t: "\<forall>(k, n, a) \<in> set (tyre_fields 2).
            snapshot_tyre (payload good_api 5) 2 k = Some (field_value (tyre_info good_api) n a)"
    using m [THEN conjunct2, THEN conjunct1] unfolding now by simp
  have f3: "snapshot_tyre (payload good_api 5) 2 ''slip_ratio'' = Some (field_value (tyre_info good_api) ''get_slip_ratio'' [JInt 2])"
    and f4: "snapshot_tyre (payload good_api 5) 2 ''wear'' = Some (field_value (tyre_info good_api) ''get_tyre_wear_value'' [JInt 2])"
    using t by (simp_all add: tyre_fields_def)
  have out: "udp_goes_out quiet_tick (fst started)" "telemetry_sock (fst started) = Some 0"
    "telemetry_addr (fst started) = (JStr ''127.0.0.1'', 9876)" "w_sent (snd started) = []"
    by (simp_all add: udp_goes_out_def started_eval quiet_tick_def module_globals_def
        empty_world_def)
  have s: "w_sent (snd (snd (acUpdate quiet_tick (Some good_api) started))) =
             [(0, payload good_api 5, (JStr ''127.0.0.1'', 9876))]"
    using m [THEN conjunct2, THEN conjunct2, THEN conjunct1] out
    unfolding now quiet_tick_started by simp
  show ?thesis
    using f1 f2 f3 f4 s by (simp add: field_value_def direct_call_def good_api_def)
qed

text \<open>
  The handlers of the tick call \<^verbatim>\<open>ac.log\<close> without a guard: when the telemetry file cannot
  be written and \<^verbatim>\<open>ac.log\<close> raises, the exception leaves \<^verbatim>\<open>acUpdate\<close>.
\<close>

lemma tick_raises_example:
  "fst (acUpdate (quiet_tick\<lparr>t_send_ok := False, t_write := OpenFails,
                            t_ac_log_raises := (\<lambda>m. True)\<rparr>)
          (Some good_api) (module_globals, empty_world)) = Raised"
proof -
  let ?t = "quiet_tick\<lparr>t_send_ok := False, t_write := OpenFails, t_ac_log_raises := (\<lambda>m. True)\<rparr>"
  have c: "check_input_file ?t (module_globals, empty_world) = (module_globals, empty_world)"
    by (simp add: check_input_file_def read_input_file_def input_path_def exists_file_def
        quiet_tick_def empty_world_def module_globals_def Let_def)
  have l: "labels_ok ?t good_api"
    using labels_ok_good_api by (simp add: labels_ok_def label_ok_def)
  show ?thesis
    unfolding acUpdate_def c
    by (simp add: publish_tick_def l Let_def send_telemetry_def atomic_write_def
        on_write_error_def on_payload_error_def on_label_error_def module_globals_def)
qed

section \<open>Properties of the receiver\<close>

lemma summaries_hexdump: "summaries (hexdump b) = []"
  by (simp add: summaries_def hexdump_def filter_empty_conv)

lemma summaries_classify: "summaries (snd (classify C d)) = []"
  using summaries_hexdump [of d]
  by (simp add: classify_def summaries_def split: option.splits json.splits)

lemma recv_step_quiet:
  assumes "now - last_print st < 1"
  shows "recv_step C ev now st =
           (Some (absorb (datagrams [(ev, now)]) st), [])"
  using assms
  by (cases ev)
     (simp_all add: recv_step_def absorb_def datagrams_def Let_def split: option.splits)

lemma absorb_absorb: "absorb ds' (absorb ds st) = absorb (ds @ ds') st"
  by (simp add: absorb_def)

lemma absorb_last_print: "last_print (absorb ds st) = last_print st"
  by (simp add: absorb_def)

lemma datagrams_Cons: "datagrams (e # es) = datagrams [e] @ datagrams es"
  by (simp add: datagrams_def)

lemma datagrams_append: "datagrams (es @ es') = datagrams es @ datagrams es'"
  by (simp add: datagrams_def)

lemma recv_loop_quiet:
  "quiet (last_print st) es \<Longrightarrow> recv_loop C es st = (Some (absorb (datagrams es) st), [])"
proof (induction es arbitrary: st)
  case Nil
  then show ?case by (simp add: absorb_def datagrams_def)
next
  case (Cons e es)
  obtain ev now where e: "e = (ev, now)"
    by (cases e)
  have q1: "now - last_print st < 1" and q2: "quiet (last_print st) es"
    using Cons.prems by (simp_all add: quiet_def e)
  have st: "recv_step C ev now st = (Some (absorb (datagrams [(ev, now)]) st), [])"
    by (rule recv_step_quiet [OF q1])
  have "quiet (last_print (absorb (datagrams [(ev, now)]) st)) es"
    using q2 by (simp add: absorb_last_print)
  then have "recv_loop C es (absorb (datagrams [(ev, now)]) st) =
               (Some (absorb (datagrams es) (absorb (datagrams [(ev, now)]) st)), [])"
    by (rule Cons.IH)
  then show ?case
    using st by (simp add: e absorb_absorb datagrams_Cons [of "(ev, now)" es])
qed

lemma recv_loop_append:
  "recv_loop C (es @ es') st =
     (case fst (recv_loop C es st) of
        None \<Rightarrow> recv_loop C es st
      | Some st' \<Rightarrow> (fst (recv_loop C es' st'), snd (recv_loop C es st) @ snd (recv_loop C es' st')))"
proof (induction es arbitrary: st)
  case Nil
  then show ?case by simp
next
  case (Cons e es)
  obtain ev now where e: "e = (ev, now)"
    by (cases e)
  show ?case
    using Cons.IH by (simp add: e split: option.splits)
qed

lemma recv_loop_single: "recv_loop C [(ev, now)] st = recv_step C ev now st"
  by (cases "recv_step C ev now st") (auto split: option.splits)

lemma recv_step_due:
  assumes "now - last_print st \<ge> 1" and "last_pkt st = Some (d, a)"
  shows "recv_step C Timeout now st =
           (if fst (classify C d)
            then Some (st\<lparr>last_print := now, last_pkt := None, pkt_count := 0\<rparr>) else None,
            Summary (pkt_count st) (length d) a # snd (classify C d))"
  using assms by (simp add: recv_step_def Let_def)

lemma recv_step_Recv:
  "recv_step C (Recv d a) now st =
     recv_step C Timeout now (st\<lparr>last_pkt := Some (d, a), pkt_count := pkt_count st + 1\<rparr>)"
  by (simp add: recv_step_def)

lemma recv_step_idle:
  "last_pkt st = None \<Longrightarrow> recv_step C Timeout now st = (Some st, [])"
  by (simp add: recv_step_def)

lemma recv_step_last:
  assumes "now - last_print st \<ge> 1" and "last_pkt st = None" and "pkt_count st = 0"
      and "ds = datagrams (es @ [(ev, now)])" and "ds \<noteq> []"
  shows "recv_step C ev now (absorb (datagrams es) st) =
           (if fst (classify C (fst (last ds)))
            then Some (st\<lparr>last_print := now, last_pkt := None, pkt_count := 0\<rparr>) else None,
            Summary (length ds) (length (fst (last ds))) (snd (last ds)) #
              snd (classify C (fst (last ds))))"
proof (cases ev)
  case (Recv d a)
  have ds: "ds = datagrams es @ [(d, a)]"
    using assms(4) Recv by (simp add: datagrams_append) (simp add: datagrams_def)
  show ?thesis
    using assms(1,3)
    by (simp add: Recv recv_step_Recv ds recv_step_def absorb_def Let_def)
next
  case Timeout
  have ds: "ds = datagrams es"
    using assms(4) Timeout by (simp add: datagrams_append) (simp add: datagrams_def)
  obtain d a where l: "last ds = (d, a)"
    by (cases "last ds")
  have lp: "last_pkt (absorb (datagrams es) st) = Some (d, a)"
    using assms(5) ds l by (simp add: absorb_def)
  have due: "now - last_print (absorb (datagrams es) st) \<ge> 1"
    using assms(1) by (simp add: absorb_last_print)
  show ?thesis
    unfolding Timeout recv_step_due [OF due lp]
    using assms(3,5) ds l by (simp add: absorb_def)
qed

text \<open>
  The aggregation itself. From the state a print leaves behind, let passes follow that
  fall inside the interval, and then one pass at or after its end. With no datagram in
  between nothing is printed and the state is unchanged. With \<open>N \<ge> 1\<close> datagrams
  exactly one summary is printed, with \<open>N\<close> and the size and sender of the last one; and
  when the classification of that payload returns, the count is back at 0, the last
  packet cleared and the interval restarted.
\<close>

lemma receiver_aggregates:
  assumes "quiet (last_print st) es" and "now - last_print st \<ge> 1"
      and "last_pkt st = None" and "pkt_count st = 0"
      and "ds = datagrams (es @ [(ev, now)])"
  shows "ds = [] \<longrightarrow> recv_loop C (es @ [(ev, now)]) st = (Some st, [])"
    and "ds \<noteq> [] \<longrightarrow>
           summaries (snd (recv_loop C (es @ [(ev, now)]) st)) =
             [Summary (length ds) (length (fst (last ds))) (snd (last ds))] \<and>
           fst (recv_loop C (es @ [(ev, now)]) st) =
             (if fst (classify C (fst (last ds)))
              then Some (st\<lparr>last_print := now, last_pkt := None, pkt_count := 0\<rparr>) else None)"
proof -
  have q: "recv_loop C es st = (Some (absorb (datagrams es) st), [])"
    by (rule recv_loop_quiet [OF assms(1)])
  have l: "recv_loop C (es @ [(ev, now)]) st = recv_step C ev now (absorb (datagrams es) st)"
    using recv_loop_append [of C es "[(ev, now)]" st]
    unfolding q recv_loop_single by simp
  show "ds = [] \<longrightarrow> recv_loop C (es @ [(ev, now)]) st = (Some st, [])"
  proof
    assume e: "ds = []"
    have c: "datagrams es @ datagrams [(ev, now)] = []"
      using e assms(5) by (simp add: datagrams_append)
    then have "datagrams es = []"
      by simp
    moreover have "ev = Timeout"
      using c by (cases ev) (simp_all add: datagrams_def)
    ultimately have "datagrams es = []" and "ev = Timeout"
      by simp_all
    then show "recv_loop C (es @ [(ev, now)]) st = (Some st, [])"
      unfolding l using assms(3) by (simp add: absorb_def recv_step_idle)
  qed
  show "ds \<noteq> [] \<longrightarrow>
           summaries (snd (recv_loop C (es @ [(ev, now)]) st)) =
             [Summary (length ds) (length (fst (last ds))) (snd (last ds))] \<and>
           fst (recv_loop C (es @ [(ev, now)]) st) =
             (if fst (classify C (fst (last ds)))
              then Some (st\<lparr>last_print := now, last_pkt := None, pkt_count := 0\<rparr>) else None)"
  proof
    assume ne: "ds \<noteq> []"
    have s: "summaries (Summary n k a # ps) = Summary n k a # summaries ps" for n k a ps
      by (simp add: summaries_def)
    show "summaries (snd (recv_loop C (es @ [(ev, now)]) st)) =
             [Summary (length ds) (length (fst (last ds))) (snd (last ds))] \<and>
           fst (recv_loop C (es @ [(ev, now)]) st) =
             (if fst (classify C (fst (last ds)))
              then Some (st\<lparr>last_print := now, last_pkt := None, pkt_count := 0\<rparr>) else None)"
      unfolding l recv_step_last [OF assms(2,3,4,5) ne]
      by (simp add: s summaries_classify)
  qed
qed

text \<open>
  C8. The reset after the summary does not happen for every payload. When the last
  datagram decodes and parses as JSON but is not an object with an \<^verbatim>\<open>inputs\<close> key, the
  pass prints the summary line and then ends the loop with the exception
  (\<^verbatim>\<open>KeyError\<close> or \<^verbatim>\<open>TypeError\<close>, which the \<^verbatim>\<open>except (ValueError, JSONDecodeError)\<close>
  clause lets through): there is no state left in which the count is 0.
\<close>

theorem receiver_stops_on_json_without_inputs:
  assumes "now - last_print st \<ge> 1"
      and "utf8_decode C d = Some txt" and "json_loads C txt = Some v"
      and "obj_get v ''inputs'' = None"
  shows "recv_step C (Recv d a) now st = (None, [Summary (pkt_count st + 1) (length d) a])"
proof -
  have "classify C d = (False, [])"
    using assms(2,3,4) by (cases v) (simp_all add: classify_def obj_get_def)
  then show ?thesis
    using assms(1) by (simp add: recv_step_def Let_def)
qed

theorem receiver_stops_on_json_without_inputs_witness:
  "recv_step example_codec (Recv [123, 125] (''127.0.0.1'', 50000)) 1700000000 receiver_start =
     (None, [Summary 1 2 (''127.0.0.1'', 50000)])"
proof -
  have h1: "1700000000 - last_print receiver_start \<ge> 1"
    by (simp add: receiver_start_def)
  have h2: "utf8_decode example_codec [123, 125] = Some [123, 125]"
    by (simp add: example_codec_def)
  have h3: "json_loads example_codec [123, 125] = Some (JObj [])"
    by (simp add: example_codec_def)
  have h4: "obj_get (JObj []) ''inputs'' = None"
    by (simp add: obj_get_def)
  show ?thesis
    using receiver_stops_on_json_without_inputs [OF h1 h2 h3 h4, of "(''127.0.0.1'', 50000)"]
    by (simp add: receiver_start_def)
qed

end
